theory Spec2Isabelle
  imports Main "HOL-Library.AList" "HOL-Library.Sublist"
begin

section \<open>Sample manifests of pipeline\_cellranger.py\<close>

text \<open>
  The development embeds \<^verbatim>\<open>sample_information\<close> (lines 163--233 of
  \<^verbatim>\<open>src/pipelines/pipeline_cellranger.py\<close>) and the manifest body loop of
  \<^verbatim>\<open>cellrangerCount\<close> (lines 283--292).

  Conventions.
  \<^item> A Python \<^verbatim>\<open>str\<close> is a \<^typ>\<open>string\<close>; the separators the code looks for
    (\<^verbatim>\<open>.\<close>, \<^verbatim>\<open>_\<close>, \<^verbatim>\<open>,\<close>, \<^verbatim>\<open>/\<close>) and the token \<^verbatim>\<open>sample_id\<close> are ASCII.
  \<^item> A Python \<^verbatim>\<open>dict\<close> is an association list in insertion order; assigning to a
    key that is present replaces the value and keeps the key's position
    (\<^const>\<open>AList.update\<close>).
  \<^item> \<^verbatim>\<open>pd.DataFrame(samples)\<close> keeps the order of the dict it is given (Python 3.7 and
    pandas 0.23 onwards), so the rows of the sample table follow the order in which the
    manifests were processed.
  \<^item> Every \<^verbatim>\<open>raise\<close> of the source is an \<open>Inl\<close> result.
\<close>

subsection \<open>Python string operations\<close>

text \<open>\<^verbatim>\<open>s.split(sep)\<close> for a one-character separator: never an empty list.\<close>

fun split_str :: "char \<Rightarrow> string \<Rightarrow> string list" where
  "split_str sep [] = [[]]"
| "split_str sep (c # cs) =
     (if c = sep then [] # split_str sep cs
      else (case split_str sep cs of
              [] \<Rightarrow> [[c]]
            | w # ws \<Rightarrow> (c # w) # ws))"

text \<open>\<^verbatim>\<open>sub in s\<close>: \<open>sub\<close> occurs in \<open>s\<close> as a contiguous substring.\<close>

fun contains :: "string \<Rightarrow> string \<Rightarrow> bool" where
  "contains sub [] = (sub = [])"
| "contains sub (c # cs) = (prefix sub (c # cs) \<or> contains sub cs)"

text \<open>\<^verbatim>\<open>os.path.basename(p)\<close> (posixpath): what follows the last slash.\<close>

definition basename :: "string \<Rightarrow> string" where
  "basename p = rev (takeWhile (\<lambda>c. c \<noteq> CHR ''/'') (rev p))"

text \<open>\<^verbatim>\<open>sep.join(xs)\<close>.\<close>

fun join :: "string \<Rightarrow> string list \<Rightarrow> string" where
  "join sep [] = []"
| "join sep [x] = x"
| "join sep (x # y # ys) = x @ sep @ join sep (y # ys)"

text \<open>
  \<^verbatim>\<open>s.strip()\<close>: the ASCII characters Python treats as whitespace are the codes
  9--13, 28--31 and 32.  Python also strips whitespace outside ASCII (U+0085, U+00A0
  and others); a \<^typ>\<open>string\<close> holds bytes, and the model leaves those alone.
\<close>

definition is_space :: "char \<Rightarrow> bool" where
  "is_space c = (let n = (of_char c :: nat) in (9 \<le> n \<and> n \<le> 13) \<or> (28 \<le> n \<and> n \<le> 32))"

definition strip :: "string \<Rightarrow> string" where
  "strip s = rev (dropWhile is_space (rev (dropWhile is_space s)))"

text \<open>\<^verbatim>\<open>str(n)\<close> for an integer: its decimal digits, with a sign when negative.\<close>

definition digit_char :: "nat \<Rightarrow> char" where
  "digit_char d = ''0123456789'' ! d"

function str_nat :: "nat \<Rightarrow> string" where
  "str_nat n = (if n < 10 then [digit_char n] else str_nat (n div 10) @ [digit_char (n mod 10)])"
  by pat_completeness auto
termination
  by (relation "measure id") auto

declare str_nat.simps [simp del]

definition str_int :: "int \<Rightarrow> string" where
  "str_int i = (if i < 0 then CHR ''-'' # str_nat (nat (- i)) else str_nat (nat i))"



subsection \<open>The manifest body loop of cellrangerCount\<close>




subsection \<open>Errors\<close>

text \<open>
  The four \<^verbatim>\<open>ValueError\<close>s of \<^verbatim>\<open>sample_information\<close>, one constructor for each
  \<^verbatim>\<open>raise\<close>, carrying what the message interpolates:
  \<^item> \<open>NoInputError\<close> (line 172): \<^verbatim>\<open>No input files detected\<close>;
  \<^item> \<open>MalformedManifestNameError\<close> (lines 188--192): the basename and the format the
    message says is expected;
  \<^item> \<open>ReservedNameError\<close> (line 196): \<^verbatim>\<open>The sample names cannot contain "sample_id"\<close>;
  \<^item> \<open>FieldCountMismatchError\<close> (lines 199--203): the sample name and the list of
    name field titles.

  The last two are what the pandas and Python operations of lines 216--231 raise:
  \<open>KeyError\<close> with the labels that are not columns, and \<open>TypeError\<close> for
  \<^verbatim>\<open>+\<close> between a missing value and a string.
\<close>

datatype error =
    NoInputError
  | MalformedManifestNameError string string
  | ReservedNameError
  | FieldCountMismatchError string "string list"
  | KeyError "string list"
  | TypeError

definition expected_format :: string where
  "expected_format = ''sample_name_fields.ncells.seq_batch.sample''"

definition bind_result :: "error + 'a \<Rightarrow> ('a \<Rightarrow> error + 'b) \<Rightarrow> error + 'b" where
  "bind_result r f = (case r of Inl e \<Rightarrow> Inl e | Inr x \<Rightarrow> f x)"

fun traverse :: "('a \<Rightarrow> error + 'b) \<Rightarrow> 'a list \<Rightarrow> error + 'b list" where
  "traverse f [] = Inr []"
| "traverse f (x # xs) =
     bind_result (f x) (\<lambda>y. bind_result (traverse f xs) (\<lambda>ys. Inr (y # ys)))"

subsection \<open>The directory and the configuration\<close>

text \<open>
  \<^verbatim>\<open>data.dir\<close> is the list of its entries, name and content, in the order the file
  system lists them.  \<^verbatim>\<open>glob.glob("data.dir/*.sample")\<close> keeps that order; the
  pattern matches a name that ends in \<^verbatim>\<open>.sample\<close> and does not start with a dot
  (\<^verbatim>\<open>glob\<close> skips hidden names for a pattern that does not start with a dot), and each
  result is the name joined to \<^verbatim>\<open>data.dir\<close>.
\<close>

type_synonym directory = "(string \<times> string) list"

definition ishidden :: "string \<Rightarrow> bool" where
  "ishidden name = (case name of [] \<Rightarrow> False | c # _ \<Rightarrow> c = CHR ''.'')"

definition glob_sample :: "directory \<Rightarrow> string list" where
  "glob_sample d =
     map (\<lambda>name. ''data.dir/'' @ name)
       (filter (\<lambda>name. \<not> ishidden name \<and> suffix ''.sample'' name) (map fst d))"

text \<open>The two entries of \<^verbatim>\<open>PARAMS\<close> that \<^verbatim>\<open>sample_information\<close> reads.\<close>

record params =
  PARAMS_name_field_titles :: string
  PARAMS_sample_fields :: "string option"

subsection \<open>Data frames\<close>

text \<open>
  A pandas \<^verbatim>\<open>DataFrame\<close> of strings: the row labels and the columns in order, each
  column with one cell for every row.  A cell that the constructor could not fill is
  \<open>NaN\<close>.
\<close>

datatype cell = Str string | NaN

record DataFrame =
  df_index :: "string list"
  df_columns :: "(string \<times> cell list) list"

type_synonym samples = "(string \<times> (string \<times> string) list) list"

text \<open>\<^verbatim>\<open>dict(pairs)\<close>: a later pair with a key seen before replaces its value.\<close>

definition dict :: "('k \<times> 'v) list \<Rightarrow> ('k \<times> 'v) list" where
  "dict ps = fold (\<lambda>(k, v). AList.update k v) ps []"

text \<open>The labels of several dicts, each once, in the order of their first occurrence.\<close>

definition union_keys :: "string list list \<Rightarrow> string list" where
  "union_keys kss = rev (remdups (rev (concat kss)))"

text \<open>
  \<^verbatim>\<open>pd.DataFrame(samples).transpose()\<close> for a dict of dicts: one row for every outer
  key, in the order of the dict; one column for every inner key.
\<close>

definition DataFrame_transpose :: "samples \<Rightarrow> DataFrame" where
  "DataFrame_transpose samples =
     \<lparr>df_index = map fst samples,
      df_columns =
        map (\<lambda>k. (k, map (\<lambda>row. case map_of (snd row) k of None \<Rightarrow> NaN | Some v \<Rightarrow> Str v) samples))
          (union_keys (map (\<lambda>row. map fst (snd row)) samples))\<rparr>"

text \<open>\<^verbatim>\<open>df[c] = values\<close>: a present column keeps its place, a new one goes last.\<close>

definition df_setitem :: "DataFrame \<Rightarrow> string \<Rightarrow> cell list \<Rightarrow> DataFrame" where
  "df_setitem df c vs = df\<lparr>df_columns := AList.update c vs (df_columns df)\<rparr>"

text \<open>\<^verbatim>\<open>df[c].values\<close>.\<close>

definition df_getitem :: "DataFrame \<Rightarrow> string \<Rightarrow> error + cell list" where
  "df_getitem df c =
     (case map_of (df_columns df) c of None \<Rightarrow> Inl (KeyError [c]) | Some vs \<Rightarrow> Inr vs)"

text \<open>
  \<^verbatim>\<open>df[cs].values\<close> for a list of labels: the rows of the selected columns.  Every
  column of a table has one cell for each row, so \<open>col ! i\<close> is in range.
\<close>

definition df_values :: "DataFrame \<Rightarrow> string list \<Rightarrow> error + cell list list" where
  "df_values df cs =
     (case those (map (map_of (df_columns df)) cs) of
        None \<Rightarrow> Inl (KeyError (filter (\<lambda>c. map_of (df_columns df) c = None) cs))
      | Some cols \<Rightarrow> Inr (map (\<lambda>i. map (\<lambda>col. col ! i) cols) [0..<length (df_index df)]))"

fun str_cell :: "cell \<Rightarrow> string" where
  "str_cell (Str s) = s"
| "str_cell NaN = ''nan''"

fun add_str :: "string \<Rightarrow> cell \<Rightarrow> error + string" where
  "add_str t (Str s) = Inr (s @ t)"
| "add_str t NaN = Inl TypeError"

subsection \<open>sample\_information\<close>

text \<open>
  The body of \<^verbatim>\<open>for sample_file in sample_files\<close> (lines 182--211) on the dict
  \<^verbatim>\<open>samples\<close>.  The slice \<^verbatim>\<open>sample_name_sections[1:3]\<close> is \<open>take 2 (drop 1 _)\<close>.
\<close>

definition process_sample_file ::
  "string list \<Rightarrow> string list \<Rightarrow> samples \<Rightarrow> string \<Rightarrow> error + samples" where
  "process_sample_file name_field_titles sample_titles samples sample_file =
     (let sample_basename = basename sample_file;
          sample_name_sections = split_str CHR ''.'' sample_basename in
      if length sample_name_sections \<noteq> 4
      then Inl (MalformedManifestNameError sample_basename expected_format)
      else
        let sample_name = hd sample_name_sections in
        if contains ''sample_id'' sample_name then Inl ReservedNameError
        else if length (split_str CHR ''_'' sample_name) \<noteq> length name_field_titles
        then Inl (FieldCountMismatchError sample_name name_field_titles)
        else
          let sample_fields =
                split_str CHR ''_'' sample_name @ take 2 (drop 1 sample_name_sections) @ [sample_file]
          in Inr (AList.update sample_name (dict (zip sample_titles sample_fields)) samples))"

fun process_sample_files ::
  "string list \<Rightarrow> string list \<Rightarrow> samples \<Rightarrow> string list \<Rightarrow> error + samples" where
  "process_sample_files name_field_titles sample_titles samples [] = Inr samples"
| "process_sample_files name_field_titles sample_titles samples (sample_file # sample_files) =
     bind_result (process_sample_file name_field_titles sample_titles samples sample_file)
       (\<lambda>samples'. process_sample_files name_field_titles sample_titles samples' sample_files)"

text \<open>Lines 216--233: the table built from \<^verbatim>\<open>samples\<close>.\<close>

definition make_sample_table :: "params \<Rightarrow> samples \<Rightarrow> error + DataFrame" where
  "make_sample_table PARAMS samples =
     (let sample_table = DataFrame_transpose samples;
          sample_table = df_setitem sample_table ''library_id'' (map Str (df_index sample_table))
      in
      bind_result
        (case PARAMS_sample_fields PARAMS of
           None \<Rightarrow>
             bind_result (df_getitem sample_table ''library_id'')
               (\<lambda>library_id. Inr (df_setitem sample_table ''sample_id'' library_id))
         | Some s \<Rightarrow>
             (let sample_fields = split_str CHR '','' s in
              bind_result (df_values sample_table sample_fields)
                (\<lambda>rows. Inr (df_setitem sample_table ''sample_id''
                   (map (\<lambda>x. Str (join ''_'' (map str_cell x))) rows)))))
        (\<lambda>sample_table.
           bind_result (df_getitem sample_table ''library_id'')
             (\<lambda>library_id.
                bind_result (traverse (add_str ''-count/outs/molecule_info.h5'') library_id)
                  (\<lambda>molecule_h5.
                     let sample_table = df_setitem sample_table ''molecule_h5'' (map Str molecule_h5);
                         sample_table = df_setitem sample_table ''agg_id''
                           (map (\<lambda>x. Str (str_int x)) [1..int (length (df_index sample_table))])
                     in Inr sample_table))))"

text \<open>
  \<^verbatim>\<open>sample_information(check_only)\<close> on the directory \<^verbatim>\<open>data.dir\<close>: \<open>Inr None\<close> is
  the plain \<^verbatim>\<open>return\<close> of the check-only pass, \<open>Inr (Some t)\<close> the returned table.
\<close>

definition sample_information :: "params \<Rightarrow> directory \<Rightarrow> bool \<Rightarrow> error + DataFrame option" where
  "sample_information PARAMS data_dir check_only =
     (let sample_files = glob_sample data_dir in
      if length sample_files = 0 then Inl NoInputError
      else
        let name_field_titles = split_str CHR '','' (PARAMS_name_field_titles PARAMS);
            sample_titles = name_field_titles @ [''ncells'', ''seq_id'', ''file'']
        in
        bind_result (process_sample_files name_field_titles sample_titles [] sample_files)
          (\<lambda>samples.
             if check_only then Inr None
             else bind_result (make_sample_table PARAMS samples) (\<lambda>sample_table. Inr (Some sample_table))))"

text \<open>\<^verbatim>\<open>df.columns\<close>: the column labels in order.\<close>

definition df_column_names :: "DataFrame \<Rightarrow> string list" where
  "df_column_names df = map fst (df_columns df)"

subsection \<open>Notions used in the statements\<close>

text \<open>
  What the three checks of the loop body (lines 187, 195 and 198) ask of a manifest
  path: four dot-separated sections, no \<^verbatim>\<open>sample_id\<close> in the first one, and as many
  underscore-separated fields in it as there are name field titles.
\<close>

definition valid_sample_file :: "string list \<Rightarrow> string \<Rightarrow> bool" where
  "valid_sample_file name_field_titles sample_file =
     (let sample_name_sections = split_str CHR ''.'' (basename sample_file) in
      length sample_name_sections = 4
      \<and> \<not> contains ''sample_id'' (hd sample_name_sections)
      \<and> length (split_str CHR ''_'' (hd sample_name_sections)) = length name_field_titles)"

text \<open>The locals \<^verbatim>\<open>sample_name\<close> (line 194) and \<^verbatim>\<open>sample_fields\<close> (lines 206--207).\<close>

definition sample_name_of :: "string \<Rightarrow> string" where
  "sample_name_of sample_file = hd (split_str CHR ''.'' (basename sample_file))"

definition sample_fields_of :: "string \<Rightarrow> string list" where
  "sample_fields_of sample_file =
     split_str CHR ''_'' (sample_name_of sample_file)
     @ take 2 (drop 1 (split_str CHR ''.'' (basename sample_file))) @ [sample_file]"

text \<open>The dict stored for a manifest at line 211, and the local \<^verbatim>\<open>sample_titles\<close> (line 177).\<close>

definition sample_record :: "string list \<Rightarrow> string \<Rightarrow> (string \<times> string) list" where
  "sample_record sample_titles sample_file =
     dict (zip sample_titles
       (split_str CHR ''_'' (sample_name_of sample_file)
        @ take 2 (drop 1 (split_str CHR ''.'' (basename sample_file))) @ [sample_file]))"

definition sample_titles_of :: "params \<Rightarrow> string list" where
  "sample_titles_of PARAMS =
     split_str CHR '','' (PARAMS_name_field_titles PARAMS) @ [''ncells'', ''seq_id'', ''file'']"

text \<open>The dict \<^verbatim>\<open>samples\<close> when the loop has accepted all of \<open>sample_files\<close>.\<close>

definition samples_of :: "string list \<Rightarrow> string list \<Rightarrow> samples" where
  "samples_of sample_titles sample_files =
     fold (\<lambda>f s. AList.update (sample_name_of f) (sample_record sample_titles f) s) sample_files []"

text \<open>
  A configuration whose \<^verbatim>\<open>sample_fields\<close> is unset, or names only columns the table has
  when line 223 selects them: the sample titles and \<^verbatim>\<open>library_id\<close>.
\<close>

definition sample_fields_ok :: "params \<Rightarrow> bool" where
  "sample_fields_ok PARAMS =
     (case PARAMS_sample_fields PARAMS of
        None \<Rightarrow> True
      | Some s \<Rightarrow> \<forall>c\<in>set (split_str CHR '','' s). c = ''library_id'' \<or> c \<in> set (sample_titles_of PARAMS))"

text \<open>
  The table lines 216--231 build from \<^verbatim>\<open>samples\<close>, with \<open>sid\<close> for the cells of the
  \<^verbatim>\<open>sample_id\<close> column.
\<close>

definition table_with :: "samples \<Rightarrow> cell list \<Rightarrow> DataFrame" where
  "table_with s sid =
     df_setitem
       (df_setitem
          (df_setitem
             (df_setitem (DataFrame_transpose s) ''library_id'' (map Str (map fst s)))
             ''sample_id'' sid)
          ''molecule_h5'' (map (\<lambda>n. Str (n @ ''-count/outs/molecule_info.h5'')) (map fst s)))
       ''agg_id'' (map (\<lambda>x. Str (str_int x)) [1..int (length s)])"

text \<open>
  A string that denotes a positive integer: decimal digits, at least one of them, not
  all zero.  The code never computes this; it states what an expected cell count is.
\<close>

definition is_digit :: "char \<Rightarrow> bool" where
  "is_digit c = (let n = (of_char c :: nat) in 48 \<le> n \<and> n \<le> 57)"

definition denotes_positive_integer :: "string \<Rightarrow> bool" where
  "denotes_positive_integer s = (s \<noteq> [] \<and> list_all is_digit s \<and> list_ex (\<lambda>c. c \<noteq> CHR ''0'') s)"



section \<open>Properties\<close>

subsection \<open>Auxiliary facts\<close>


lemma split_str_nonempty: "split_str sep s \<noteq> []"
  by (induction s) (auto split: list.splits)










lemma strip_sublist: "\<exists>ps ss. s = ps @ strip s @ ss \<and> list_all is_space ps \<and> list_all is_space ss"
proof -
  let ?t = "dropWhile is_space s"
  have 1: "s = takeWhile is_space s @ ?t" by simp
  have 2: "rev ?t = takeWhile is_space (rev ?t) @ dropWhile is_space (rev ?t)" by simp
  then have "?t = rev (dropWhile is_space (rev ?t)) @ rev (takeWhile is_space (rev ?t))"
    by (metis rev_append rev_rev_ident)
  then have "s = takeWhile is_space s @ strip s @ rev (takeWhile is_space (rev ?t))"
    using 1 by (simp add: strip_def)
  moreover have "list_all is_space (takeWhile is_space s)"
    by (simp add: list_all_iff) (meson set_takeWhileD)
  moreover have "list_all is_space (rev (takeWhile is_space (rev ?t)))"
    by (simp add: list_all_iff) (meson set_takeWhileD)
  ultimately show ?thesis by blast
qed

lemma split_str_join: "join [sep] (split_str sep s) = s"
proof (induction s)
  case Nil
  then show ?case by simp
next
  case (Cons c s)
  obtain w ws where ws: "split_str sep s = w # ws"
    using split_str_nonempty [of sep s] by (cases "split_str sep s") auto
  show ?case
  proof (cases "c = sep")
    case True
    then show ?thesis using Cons.IH ws by simp
  next
    case False
    then show ?thesis using Cons.IH ws by (cases ws) simp_all
  qed
qed

lemma split_str_no_sep: "w \<in> set (split_str sep s) \<Longrightarrow> sep \<notin> set w"
proof (induction s arbitrary: w)
  case Nil
  then show ?case by simp
next
  case (Cons c s)
  obtain v vs where vs: "split_str sep s = v # vs"
    using split_str_nonempty [of sep s] by (cases "split_str sep s") auto
  show ?case
  proof (cases "c = sep")
    case True
    with Cons show ?thesis by auto
  next
    case False
    with Cons.prems vs have "w = c # v \<or> w \<in> set vs" by simp
    then show ?thesis
    proof
      assume "w = c # v"
      moreover have "sep \<notin> set v" using Cons.IH [of v] vs by simp
      ultimately show ?thesis using False by simp
    next
      assume "w \<in> set vs"
      then show ?thesis using Cons.IH [of w] vs by simp
    qed
  qed
qed

lemma contains_iff: "contains sub s \<longleftrightarrow> (\<exists>ps ss. s = ps @ sub @ ss)"
proof (induction s)
  case Nil
  then show ?case by auto
next
  case (Cons c s)
  show ?case
  proof
    assume "contains sub (c # s)"
    then consider "prefix sub (c # s)" | "contains sub s" by auto
    then show "\<exists>ps ss. c # s = ps @ sub @ ss"
    proof cases
      case 1
      then obtain ss where "c # s = sub @ ss" by (auto simp add: prefix_def)
      then have "c # s = [] @ sub @ ss" by simp
      then show ?thesis by blast
    next
      case 2
      with Cons.IH obtain ps ss where "s = ps @ sub @ ss" by blast
      then have "c # s = (c # ps) @ sub @ ss" by simp
      then show ?thesis by blast
    qed
  next
    assume "\<exists>ps ss. c # s = ps @ sub @ ss"
    then obtain ps ss where e: "c # s = ps @ sub @ ss" by blast
    show "contains sub (c # s)"
    proof (cases ps)
      case Nil
      with e have "prefix sub (c # s)" by (simp add: prefix_def)
      then show ?thesis by simp
    next
      case (Cons p ps')
      with e have "s = ps' @ sub @ ss" by simp
      with Cons.IH have "contains sub s" by blast
      then show ?thesis by simp
    qed
  qed
qed

lemma basename_no_slash:
  assumes "CHR ''/'' \<notin> set name"
  shows "basename (dir @ CHR ''/'' # name) = name"
proof -
  have "takeWhile (\<lambda>c. c \<noteq> CHR ''/'') (rev name @ CHR ''/'' # rev dir)
          = rev name @ takeWhile (\<lambda>c. c \<noteq> CHR ''/'') (CHR ''/'' # rev dir)"
    using assms by (intro takeWhile_append2) auto
  then show ?thesis by (simp add: basename_def)
qed

lemma bind_result_simps [simp]:
  "bind_result (Inl e) f = Inl e" "bind_result (Inr x) f = f x"
  by (simp_all add: bind_result_def)

lemma bind_result_eq_Inr: "bind_result r f = Inr y \<longleftrightarrow> (\<exists>x. r = Inr x \<and> f x = Inr y)"
  by (cases r) simp_all

lemma bind_result_eq_Inl: "bind_result r f = Inl e \<longleftrightarrow> (r = Inl e \<or> (\<exists>x. r = Inr x \<and> f x = Inl e))"
  by (cases r) auto

lemma process_sample_file_valid:
  "valid_sample_file nft f \<Longrightarrow>
   process_sample_file nft st samples f =
     Inr (AList.update (sample_name_of f) (sample_record st f) samples)"
  by (simp add: valid_sample_file_def process_sample_file_def Let_def sample_name_of_def sample_record_def)

lemma process_sample_file_invalid:
  "\<not> valid_sample_file nft f \<Longrightarrow> \<exists>e. process_sample_file nft st samples f = Inl e"
  by (auto simp add: valid_sample_file_def process_sample_file_def Let_def)

lemma process_sample_file_Inr_iff:
  "(\<exists>s. process_sample_file nft st samples f = Inr s) \<longleftrightarrow> valid_sample_file nft f"
  using process_sample_file_valid process_sample_file_invalid
  by (metis sum.distinct(1))

lemma process_sample_file_error_indep:
  "process_sample_file nft st samples f = Inl e \<Longrightarrow> process_sample_file nft st' samples' f = Inl e"
  by (auto simp add: process_sample_file_def Let_def split: if_splits)

lemma process_sample_files_append:
  "process_sample_files nft st samples (xs @ ys) =
     bind_result (process_sample_files nft st samples xs) (\<lambda>s. process_sample_files nft st s ys)"
  by (induction xs arbitrary: samples) (auto simp add: bind_result_def split: sum.splits)

lemma process_sample_files_valid:
  "\<forall>f\<in>set fs. valid_sample_file nft f \<Longrightarrow>
   process_sample_files nft st samples fs =
     Inr (fold (\<lambda>f s. AList.update (sample_name_of f) (sample_record st f) s) fs samples)"
  by (induction fs arbitrary: samples) (simp_all add: process_sample_file_valid)

lemma process_sample_files_Inr_valid:
  "process_sample_files nft st samples fs = Inr s \<Longrightarrow> \<forall>f\<in>set fs. valid_sample_file nft f"
proof (induction fs arbitrary: samples)
  case Nil
  then show ?case by simp
next
  case (Cons f fs)
  from Cons.prems obtain s' where a: "process_sample_file nft st samples f = Inr s'"
    and b: "process_sample_files nft st s' fs = Inr s"
    by (auto simp add: bind_result_eq_Inr)
  from a have "valid_sample_file nft f" using process_sample_file_Inr_iff by blast
  with Cons.IH [OF b] show ?case by simp
qed

lemma process_sample_files_first_error:
  assumes "\<forall>f\<in>set pre. valid_sample_file nft f"
    and "process_sample_file nft st' samples' f = Inl e"
  shows "process_sample_files nft st samples (pre @ f # post) = Inl e"
  using assms process_sample_file_error_indep [OF assms(2)]
  by (simp add: process_sample_files_append process_sample_files_valid)

lemma remdups_append_filter:
  "remdups (as @ bs) = remdups (filter (\<lambda>a. a \<notin> set bs) as) @ remdups bs"
  by (induction as) auto

lemma union_keys_Nil [simp]: "union_keys [] = []"
  by (simp add: union_keys_def)

lemma union_keys_Cons:
  "union_keys (ks # kss) =
     rev (remdups (rev ks)) @ filter (\<lambda>k. k \<notin> set ks) (union_keys kss)"
  by (simp add: union_keys_def remdups_append_filter remdups_filter rev_filter)

lemma set_union_keys [simp]: "set (union_keys kss) = \<Union> (set ` set kss)"
  by (simp add: union_keys_def)

lemma distinct_union_keys [simp]: "distinct (union_keys kss)"
  by (simp add: union_keys_def)

lemma union_keys_same:
  assumes "kss \<noteq> []" and "\<forall>ks'\<in>set kss. ks' = ks" and "distinct ks"
  shows "union_keys kss = ks"
proof -
  from assms(1) obtain k0 rest where kss: "kss = k0 # rest" by (cases kss) auto
  with assms(2) have k0: "k0 = ks" and rest: "\<forall>ks'\<in>set rest. ks' = ks" by auto
  have "set (union_keys rest) \<subseteq> set ks" using rest by auto
  then have "filter (\<lambda>k. k \<notin> set ks) (union_keys rest) = []"
    by (auto simp add: filter_empty_conv)
  moreover have "rev (remdups (rev ks)) = ks" using assms(3) by (simp add: distinct_remdups_id)
  ultimately show ?thesis by (simp add: kss k0 union_keys_Cons)
qed

lemma fold_update_dom:
  "fst ` set (fold (\<lambda>(k, v). AList.update k v) ps acc) = fst ` set ps \<union> fst ` set acc"
proof (induction ps arbitrary: acc)
  case Nil
  then show ?case by simp
next
  case (Cons p ps)
  obtain k v where p: "p = (k, v)" by (cases p)
  have "fst ` set (fold (\<lambda>(k, v). AList.update k v) ps (AList.update k v acc))
          = fst ` set ps \<union> ({k} \<union> fst ` set acc)"
    by (simp only: Cons.IH AList.dom_update)
  then show ?case by (auto simp add: p)
qed

lemma fold_update_map_of:
  "map_of (fold (\<lambda>(k, v). AList.update k v) ps acc) = map_of (rev ps @ acc)"
proof (induction ps arbitrary: acc)
  case Nil
  then show ?case by simp
next
  case (Cons p ps)
  obtain k v where p: "p = (k, v)" by (cases p)
  have "map_of (rev ps @ AList.update k v acc) = map_of (rev ps @ (k, v) # acc)"
    by (simp add: map_of_append AList.update_conv')
  then show ?case by (simp add: Cons.IH p)
qed

lemma fold_update_distinct:
  "distinct (map fst (acc @ ps)) \<Longrightarrow> fold (\<lambda>(k, v). AList.update k v) ps acc = acc @ ps"
proof (induction ps arbitrary: acc)
  case Nil
  then show ?case by simp
next
  case (Cons p ps)
  obtain k v where p: "p = (k, v)" by (cases p)
  from Cons.prems have notin: "k \<notin> fst ` set acc" by (auto simp add: p)
  have upd: "AList.update k v acc = acc @ [(k, v)]" using notin
    by (induction acc) auto
  have "distinct (map fst ((acc @ [(k, v)]) @ ps))" using Cons.prems by (simp add: p)
  from Cons.IH [OF this] show ?case by (simp add: p upd)
qed

lemma dict_keys: "set (map fst (dict ps)) = fst ` set ps"
  using fold_update_dom [of ps "[]"] by (simp add: dict_def)

lemma dict_map_of: "map_of (dict ps) = map_of (rev ps)"
  using fold_update_map_of [of ps "[]"] by (simp add: dict_def)

lemma dict_distinct: "distinct (map fst ps) \<Longrightarrow> dict ps = ps"
  using fold_update_distinct [of "[]" ps] by (simp add: dict_def)

lemma update_set_subset: "set (AList.update k v al) \<subseteq> insert (k, v) (set al)"
  by (induction al) auto

lemma fold_samples_rows:
  "row \<in> set (fold (\<lambda>f s. AList.update (nm f) (rc f) s) fs samples) \<Longrightarrow>
   row \<in> set samples \<or> (\<exists>f\<in>set fs. row = (nm f, rc f))"
proof (induction fs arbitrary: samples)
  case Nil
  then show ?case by simp
next
  case (Cons f fs)
  from Cons.IH [of "AList.update (nm f) (rc f) samples"] Cons.prems
  have "row \<in> set (AList.update (nm f) (rc f) samples) \<or> (\<exists>f\<in>set fs. row = (nm f, rc f))"
    by simp
  then show ?case using update_set_subset [of "nm f" "rc f" samples] by auto
qed

lemma fold_samples_distinct:
  "distinct (map fst samples @ map nm fs) \<Longrightarrow>
   fold (\<lambda>f s. AList.update (nm f) (rc f) s) fs samples = samples @ map (\<lambda>f. (nm f, rc f)) fs"
proof (induction fs arbitrary: samples)
  case Nil
  then show ?case by simp
next
  case (Cons f fs)
  from Cons.prems have notin: "nm f \<notin> fst ` set samples" by auto
  have upd: "AList.update (nm f) (rc f) samples = samples @ [(nm f, rc f)]" using notin
    by (induction samples) auto
  have "distinct (map fst (samples @ [(nm f, rc f)]) @ map nm fs)" using Cons.prems by auto
  from Cons.IH [OF this] show ?case by (simp add: upd)
qed

lemma fold_samples_nonempty_acc:
  "samples \<noteq> [] \<Longrightarrow> fold (\<lambda>f s. AList.update (nm f) (rc f) s) fs samples \<noteq> []"
  by (induction fs arbitrary: samples) simp_all

lemma fold_samples_nonempty:
  "fs \<noteq> [] \<Longrightarrow> fold (\<lambda>f s. AList.update (nm f) (rc f) s) fs samples \<noteq> []"
  by (cases fs) (simp_all add: fold_samples_nonempty_acc)

lemma map_of_map_key:
  "map_of (map (\<lambda>k. (k, g k)) ks) k = (if k \<in> set ks then Some (g k) else None)"
  by (induction ks) auto

lemma traverse_add_str: "traverse (add_str t) (map Str xs) = Inr (map (\<lambda>x. x @ t) xs)"
  by (induction xs) simp_all

lemma traverse_add_str_fun:
  "traverse (add_str t) (map (\<lambda>x. Str (g x)) xs) = Inr (map (\<lambda>x. g x @ t) xs)"
  by (induction xs) simp_all

lemma those_map_total:
  "\<forall>x\<in>set xs. f x \<noteq> None \<Longrightarrow> \<exists>ys. those (map f xs) = Some ys \<and> length ys = length xs"
  by (induction xs) (auto split: option.splits)

lemma df_setitem_index [simp]: "df_index (df_setitem df c vs) = df_index df"
  by (simp add: df_setitem_def)

lemma df_setitem_map_of [simp]:
  "map_of (df_columns (df_setitem df c vs)) = (map_of (df_columns df))(c \<mapsto> vs)"
  by (simp add: df_setitem_def AList.update_conv')

lemma df_setitem_names:
  "map fst (df_columns (df_setitem df c vs)) =
     (if c \<in> set (map fst (df_columns df)) then map fst (df_columns df)
      else map fst (df_columns df) @ [c])"
  by (simp add: df_setitem_def AList.update_keys)

lemma df_getitem_setitem [simp]: "df_getitem (df_setitem df c vs) c = Inr vs"
  by (simp add: df_getitem_def)

lemma df_getitem_setitem_other:
  "c' \<noteq> c \<Longrightarrow> df_getitem (df_setitem df c vs) c' = df_getitem df c'"
  by (simp add: df_getitem_def)

lemma DataFrame_transpose_index [simp]: "df_index (DataFrame_transpose s) = map fst s"
  by (simp add: DataFrame_transpose_def)

lemma DataFrame_transpose_names:
  "map fst (df_columns (DataFrame_transpose s)) = union_keys (map (\<lambda>row. map fst (snd row)) s)"
  by (simp add: DataFrame_transpose_def comp_def)

lemma DataFrame_transpose_map_of:
  "map_of (df_columns (DataFrame_transpose s)) k =
     (if k \<in> set (union_keys (map (\<lambda>row. map fst (snd row)) s))
      then Some (map (\<lambda>row. case map_of (snd row) k of None \<Rightarrow> NaN | Some v \<Rightarrow> Str v) s)
      else None)"
  by (simp only: DataFrame_transpose_def DataFrame.simps map_of_map_key)

lemma df_values_total:
  assumes "\<forall>c\<in>set cs. map_of (df_columns df) c \<noteq> None"
  shows "\<exists>rows. df_values df cs = Inr rows \<and> length rows = length (df_index df)"
proof -
  from those_map_total [OF assms] obtain cols
    where "those (map (map_of (df_columns df)) cs) = Some cols" by blast
  then show ?thesis by (simp add: df_values_def)
qed

lemma make_sample_table_None:
  assumes "PARAMS_sample_fields PARAMS = None"
  shows "make_sample_table PARAMS s = Inr (table_with s (map Str (map fst s)))"
  using assms
  by (simp add: make_sample_table_def table_with_def Let_def df_getitem_setitem_other
      traverse_add_str comp_def)

lemma make_sample_table_Some:
  assumes "PARAMS_sample_fields PARAMS = Some sf"
    and "\<forall>c\<in>set (split_str CHR '','' sf).
           c = ''library_id'' \<or> c \<in> set (union_keys (map (\<lambda>row. map fst (snd row)) s))"
  shows "\<exists>sid. make_sample_table PARAMS s = Inr (table_with s sid) \<and> length sid = length s"
proof -
  let ?T1 = "df_setitem (DataFrame_transpose s) ''library_id'' (map Str (map fst s))"
  have "\<forall>c\<in>set (split_str CHR '','' sf). map_of (df_columns ?T1) c \<noteq> None"
    using assms(2) by (auto simp add: DataFrame_transpose_map_of)
  from df_values_total [OF this] obtain rows
    where rows: "df_values ?T1 (split_str CHR '','' sf) = Inr rows" "length rows = length s"
    by auto
  let ?sid = "map (\<lambda>x. Str (join ''_'' (map str_cell x))) rows"
  have "make_sample_table PARAMS s = Inr (table_with s ?sid)"
    using assms(1) rows(1)
    by (simp add: make_sample_table_def table_with_def Let_def df_getitem_setitem_other
        traverse_add_str_fun comp_def)
  moreover have "length ?sid = length s" using rows(2) by simp
  ultimately show ?thesis by blast
qed

lemma sample_record_eq: "sample_record st f = dict (zip st (sample_fields_of f))"
  by (simp add: sample_record_def sample_fields_of_def)

lemma valid_length_fields:
  "valid_sample_file nft f \<Longrightarrow> length (sample_fields_of f) = length nft + 3"
  by (simp add: valid_sample_file_def sample_fields_of_def sample_name_of_def Let_def)

lemma sample_record_keys:
  assumes "valid_sample_file nft f"
  shows "set (map fst (sample_record (nft @ [a, b, c]) f)) = set (nft @ [a, b, c])"
proof -
  have "length (nft @ [a, b, c]) = length (sample_fields_of f)"
    using valid_length_fields [OF assms] by simp
  then have "map fst (zip (nft @ [a, b, c]) (sample_fields_of f)) = nft @ [a, b, c]"
    by (rule map_fst_zip)
  then have "fst ` set (zip (nft @ [a, b, c]) (sample_fields_of f)) = set (nft @ [a, b, c])"
    by (metis set_map)
  then show ?thesis by (simp only: sample_record_eq dict_keys)
qed

lemma sample_information_check_iff:
  "sample_information PARAMS d True = Inr None \<longleftrightarrow>
     glob_sample d \<noteq> []
     \<and> (\<forall>f\<in>set (glob_sample d).
           valid_sample_file (split_str CHR '','' (PARAMS_name_field_titles PARAMS)) f)"
proof (cases "glob_sample d = []")
  case True
  then show ?thesis by (simp add: sample_information_def)
next
  case False
  show ?thesis
  proof
    assume "sample_information PARAMS d True = Inr None"
    then obtain s where "process_sample_files (split_str CHR '','' (PARAMS_name_field_titles PARAMS))
        (split_str CHR '','' (PARAMS_name_field_titles PARAMS) @ [''ncells'', ''seq_id'', ''file''])
        [] (glob_sample d) = Inr s"
      using False by (auto simp add: sample_information_def Let_def bind_result_eq_Inr)
    from process_sample_files_Inr_valid [OF this] False
    show "glob_sample d \<noteq> [] \<and> (\<forall>f\<in>set (glob_sample d).
           valid_sample_file (split_str CHR '','' (PARAMS_name_field_titles PARAMS)) f)"
      by simp
  next
    assume "glob_sample d \<noteq> [] \<and> (\<forall>f\<in>set (glob_sample d).
           valid_sample_file (split_str CHR '','' (PARAMS_name_field_titles PARAMS)) f)"
    then show "sample_information PARAMS d True = Inr None"
      by (simp add: sample_information_def Let_def process_sample_files_valid)
  qed
qed

lemma sample_information_valid:
  assumes "glob_sample d \<noteq> []"
    and "\<forall>f\<in>set (glob_sample d).
           valid_sample_file (split_str CHR '','' (PARAMS_name_field_titles PARAMS)) f"
  shows "sample_information PARAMS d False =
           bind_result (make_sample_table PARAMS (samples_of (sample_titles_of PARAMS) (glob_sample d)))
             (\<lambda>t. Inr (Some t))"
  using assms
  by (simp add: sample_information_def Let_def process_sample_files_valid samples_of_def
      sample_titles_of_def)

lemma sample_information_first_error:
  assumes "glob_sample d = pre @ f # post"
    and "\<forall>g\<in>set pre. valid_sample_file (split_str CHR '','' (PARAMS_name_field_titles PARAMS)) g"
    and "process_sample_file (split_str CHR '','' (PARAMS_name_field_titles PARAMS)) st samples f = Inl e"
  shows "sample_information PARAMS d check_only = Inl e"
  using process_sample_files_first_error [OF assms(2) assms(3)] assms(1)
  by (simp add: sample_information_def Let_def)

lemma samples_of_keys:
  assumes "sample_files \<noteq> []"
    and "\<forall>f\<in>set sample_files. valid_sample_file nft f"
  shows "set (union_keys (map (\<lambda>row. map fst (snd row)) (samples_of (nft @ [a, b, c]) sample_files)))
           = set (nft @ [a, b, c])"
proof -
  let ?s = "samples_of (nft @ [a, b, c]) sample_files"
  have ne: "?s \<noteq> []" using assms(1) by (simp add: samples_of_def fold_samples_nonempty)
  have rows: "\<forall>row\<in>set ?s. set (map fst (snd row)) = set (nft @ [a, b, c])"
  proof
    fix row assume "row \<in> set ?s"
    then obtain f where "f \<in> set sample_files" "row = (sample_name_of f, sample_record (nft @ [a, b, c]) f)"
      unfolding samples_of_def using fold_samples_rows [of row sample_name_of "sample_record (nft @ [a, b, c])" sample_files "[]"]
      by auto
    then show "set (map fst (snd row)) = set (nft @ [a, b, c])"
      using sample_record_keys assms(2) by simp
  qed
  from ne obtain r where "r \<in> set ?s" by (cases ?s) auto
  with rows show ?thesis by (simp only: set_union_keys) (auto simp del: set_append)
qed

lemma sample_information_table:
  assumes "glob_sample d \<noteq> []"
    and "\<forall>f\<in>set (glob_sample d).
           valid_sample_file (split_str CHR '','' (PARAMS_name_field_titles PARAMS)) f"
    and "sample_fields_ok PARAMS"
  shows "\<exists>sid. sample_information PARAMS d False =
            Inr (Some (table_with (samples_of (sample_titles_of PARAMS) (glob_sample d)) sid))
          \<and> length sid = length (samples_of (sample_titles_of PARAMS) (glob_sample d))
          \<and> (PARAMS_sample_fields PARAMS = None \<longrightarrow>
               sid = map Str (map fst (samples_of (sample_titles_of PARAMS) (glob_sample d))))"
proof (cases "PARAMS_sample_fields PARAMS")
  case None
  then show ?thesis
    by (simp add: sample_information_valid [OF assms(1,2)] make_sample_table_None)
next
  case (Some sf)
  have keys: "set (union_keys (map (\<lambda>row. map fst (snd row))
                 (samples_of (sample_titles_of PARAMS) (glob_sample d))))
              = set (sample_titles_of PARAMS)"
    unfolding sample_titles_of_def by (rule samples_of_keys [OF assms(1,2)])
  have "\<forall>c\<in>set (split_str CHR '','' sf). c = ''library_id'' \<or>
          c \<in> set (union_keys (map (\<lambda>row. map fst (snd row))
                 (samples_of (sample_titles_of PARAMS) (glob_sample d))))"
    using assms(3) Some by (simp only: keys) (simp add: sample_fields_ok_def)
  from make_sample_table_Some [OF Some this] obtain sid
    where "make_sample_table PARAMS (samples_of (sample_titles_of PARAMS) (glob_sample d))
             = Inr (table_with (samples_of (sample_titles_of PARAMS) (glob_sample d)) sid)"
      and "length sid = length (samples_of (sample_titles_of PARAMS) (glob_sample d))"
    by blast
  then show ?thesis
    using Some by (auto simp add: sample_information_valid [OF assms(1,2)])
qed

lemma samples_of_distinct:
  "distinct (map sample_name_of sample_files) \<Longrightarrow>
   samples_of st sample_files = map (\<lambda>f. (sample_name_of f, sample_record st f)) sample_files"
  using fold_samples_distinct [of "[]" sample_name_of sample_files "sample_record st"]
  by (simp add: samples_of_def)

lemma table_with_index [simp]: "df_index (table_with s sid) = map fst s"
  by (simp add: table_with_def)


lemma table_with_library_id:
  "map_of (df_columns (table_with s sid)) ''library_id'' = Some (map Str (map fst s))"
  by (simp add: table_with_def)

lemma table_with_molecule_h5:
  "map_of (df_columns (table_with s sid)) ''molecule_h5''
     = Some (map (\<lambda>n. Str (n @ ''-count/outs/molecule_info.h5'')) (map fst s))"
  by (simp add: table_with_def)

lemma table_with_sample_id:
  "map_of (df_columns (table_with s sid)) ''sample_id'' = Some sid"
  by (simp add: table_with_def)

lemma table_with_other:
  assumes "k \<noteq> ''library_id''" "k \<noteq> ''sample_id''" "k \<noteq> ''molecule_h5''" "k \<noteq> ''agg_id''"
  shows "map_of (df_columns (table_with s sid)) k = map_of (df_columns (DataFrame_transpose s)) k"
  using assms by (simp add: table_with_def)





lemma table_with_names:
  assumes "distinct (ks @ [''library_id'', ''sample_id'', ''molecule_h5'', ''agg_id''])"
    and "union_keys (map (\<lambda>row. map fst (snd row)) s) = ks"
  shows "map fst (df_columns (table_with s sid))
           = ks @ [''library_id'', ''sample_id'', ''molecule_h5'', ''agg_id'']"
  using assms
  by (auto simp add: table_with_def df_setitem_names DataFrame_transpose_names)

lemma traverse_add_str_error: "traverse (add_str t) xs = Inl e \<Longrightarrow> e = TypeError"
proof (induction xs arbitrary: e)
  case Nil
  then show ?case by simp
next
  case (Cons x xs)
  then show ?case by (cases x) (auto simp add: bind_result_eq_Inl)
qed

lemma make_sample_table_error:
  "make_sample_table PARAMS s = Inl e \<Longrightarrow> (\<exists>ks. e = KeyError ks) \<or> e = TypeError"
  by (auto simp add: make_sample_table_def Let_def bind_result_eq_Inl df_getitem_def df_values_def
      dest: traverse_add_str_error split: option.splits)

lemma process_sample_file_error:
  "process_sample_file nft st samples f = Inl e \<Longrightarrow>
     (length (split_str CHR ''.'' (basename f)) \<noteq> 4 \<and> e = MalformedManifestNameError (basename f) expected_format)
   \<or> (length (split_str CHR ''.'' (basename f)) = 4 \<and> contains ''sample_id'' (sample_name_of f)
        \<and> e = ReservedNameError)
   \<or> (length (split_str CHR ''.'' (basename f)) = 4 \<and> \<not> contains ''sample_id'' (sample_name_of f)
        \<and> length (split_str CHR ''_'' (sample_name_of f)) \<noteq> length nft
        \<and> e = FieldCountMismatchError (sample_name_of f) nft)"
  by (auto simp add: process_sample_file_def Let_def sample_name_of_def split: if_splits)

lemma process_sample_files_error:
  "process_sample_files nft st samples fs = Inl e \<Longrightarrow>
     \<exists>f\<in>set fs. \<exists>samples'. process_sample_file nft st samples' f = Inl e"
proof (induction fs arbitrary: samples)
  case Nil
  then show ?case by simp
next
  case (Cons f fs)
  then show ?case by (auto simp add: bind_result_eq_Inl)
qed

lemma sample_information_error:
  assumes "sample_information PARAMS d check_only = Inl e"
  shows "(glob_sample d = [] \<and> e = NoInputError)
     \<or> (glob_sample d \<noteq> [] \<and> (\<exists>f\<in>set (glob_sample d). \<exists>st samples'.
           process_sample_file (split_str CHR '','' (PARAMS_name_field_titles PARAMS)) st samples' f = Inl e))
     \<or> (glob_sample d \<noteq> [] \<and> ((\<exists>ks. e = KeyError ks) \<or> e = TypeError))"
proof (cases "glob_sample d = []")
  case True
  with assms show ?thesis by (simp add: sample_information_def)
next
  case False
  let ?nft = "split_str CHR '','' (PARAMS_name_field_titles PARAMS)"
  let ?st = "?nft @ [''ncells'', ''seq_id'', ''file'']"
  from assms False
  have "process_sample_files ?nft ?st [] (glob_sample d) = Inl e
      \<or> (\<exists>s. make_sample_table PARAMS s = Inl e)"
    by (auto simp add: sample_information_def Let_def bind_result_eq_Inl split: if_splits)
  then show ?thesis
  proof
    assume "process_sample_files ?nft ?st [] (glob_sample d) = Inl e"
    from process_sample_files_error [OF this] False show ?thesis by blast
  next
    assume "\<exists>s. make_sample_table PARAMS s = Inl e"
    then show ?thesis using False make_sample_table_error by blast
  qed
qed

lemma length4_cases:
  assumes "length xs = 4"
  obtains a b c e where "xs = [a, b, c, e]"
  using assms by (auto simp add: numeral_eq_Suc length_Suc_conv)

lemma valid_sample_fields_of:
  assumes "valid_sample_file nft f"
  shows "sample_fields_of f =
           split_str CHR ''_'' (sample_name_of f)
           @ [split_str CHR ''.'' (basename f) ! 1, split_str CHR ''.'' (basename f) ! 2, f]"
proof -
  from assms have "length (split_str CHR ''.'' (basename f)) = 4"
    by (simp add: valid_sample_file_def Let_def)
  then obtain a b c e where "split_str CHR ''.'' (basename f) = [a, b, c, e]"
    by (rule length4_cases)
  then show ?thesis by (simp add: sample_fields_of_def)
qed

lemma valid_name_fields_length:
  "valid_sample_file nft f \<Longrightarrow> length (split_str CHR ''_'' (sample_name_of f)) = length nft"
  by (simp add: valid_sample_file_def sample_name_of_def Let_def)

lemma sample_record_fixed:
  assumes "valid_sample_file nft f"
  shows "map_of (sample_record (nft @ [''ncells'', ''seq_id'', ''file'']) f) ''ncells''
           = Some (split_str CHR ''.'' (basename f) ! 1)"
proof -
  let ?xs = "split_str CHR ''_'' (sample_name_of f)"
  have len: "length nft = length ?xs" using valid_name_fields_length [OF assms] by simp
  have "rev (zip (nft @ [''ncells'', ''seq_id'', ''file'']) (sample_fields_of f))
        = [(''file'', f), (''seq_id'', split_str CHR ''.'' (basename f) ! 2),
           (''ncells'', split_str CHR ''.'' (basename f) ! 1)] @ rev (zip nft ?xs)"
    using len by (simp add: valid_sample_fields_of [OF assms] zip_append)
  then show ?thesis
    by (simp add: sample_record_eq dict_map_of)
qed

lemma sample_record_distinct:
  assumes "valid_sample_file nft f" and "distinct (nft @ [a, b, c])"
  shows "sample_record (nft @ [a, b, c]) f = zip (nft @ [a, b, c]) (sample_fields_of f)"
proof -
  have len: "length (nft @ [a, b, c]) = length (sample_fields_of f)"
    using valid_length_fields [OF assms(1)] by simp
  then have "map fst (zip (nft @ [a, b, c]) (sample_fields_of f)) = nft @ [a, b, c]"
    by (rule map_fst_zip)
  with assms(2) have "distinct (map fst (zip (nft @ [a, b, c]) (sample_fields_of f)))"
    by (simp only:)
  then show ?thesis by (simp only: sample_record_eq dict_distinct)
qed

lemma sample_record_nth:
  assumes "valid_sample_file nft f" and "distinct (nft @ [a, b, c])" and "i < length nft + 3"
  shows "map_of (sample_record (nft @ [a, b, c]) f) ((nft @ [a, b, c]) ! i)
           = Some (sample_fields_of f ! i)"
proof -
  have len: "length (nft @ [a, b, c]) = length (sample_fields_of f)"
    using valid_length_fields [OF assms(1)] by simp
  have "i < length (sample_fields_of f)" using assms(3) valid_length_fields [OF assms(1)] by simp
  from map_of_zip_nth [OF len assms(2) this] show ?thesis
    by (simp only: sample_record_distinct [OF assms(1,2)])
qed

lemma sample_record_names:
  assumes "valid_sample_file nft f" and "distinct (nft @ [a, b, c])"
  shows "map fst (sample_record (nft @ [a, b, c]) f) = nft @ [a, b, c]"
proof -
  have len: "length (nft @ [a, b, c]) = length (sample_fields_of f)"
    using valid_length_fields [OF assms(1)] by simp
  then have "map fst (zip (nft @ [a, b, c]) (sample_fields_of f)) = nft @ [a, b, c]"
    by (rule map_fst_zip)
  then show ?thesis by (simp only: sample_record_distinct [OF assms])
qed

lemma samples_union_keys:
  assumes "fs \<noteq> []"
    and "\<forall>f\<in>set fs. valid_sample_file nft f"
    and "distinct (nft @ [a, b, c])"
  shows "union_keys (map (\<lambda>row. map fst (snd row))
           (map (\<lambda>f. (sample_name_of f, sample_record (nft @ [a, b, c]) f)) fs)) = nft @ [a, b, c]"
proof (rule union_keys_same)
  show "map (\<lambda>row. map fst (snd row))
           (map (\<lambda>f. (sample_name_of f, sample_record (nft @ [a, b, c]) f)) fs) \<noteq> []"
    using assms(1) by simp
  show "\<forall>ks'\<in>set (map (\<lambda>row. map fst (snd row))
           (map (\<lambda>f. (sample_name_of f, sample_record (nft @ [a, b, c]) f)) fs)). ks' = nft @ [a, b, c]"
    using assms(2,3) sample_record_names by auto
  show "distinct (nft @ [a, b, c])" by (rule assms(3))
qed

lemma transpose_column_nth:
  assumes "fs \<noteq> []"
    and "\<forall>f\<in>set fs. valid_sample_file nft f"
    and "distinct (nft @ [a, b, c])"
    and "i < length nft + 3"
  shows "map_of (df_columns (DataFrame_transpose
           (map (\<lambda>f. (sample_name_of f, sample_record (nft @ [a, b, c]) f)) fs))) ((nft @ [a, b, c]) ! i)
         = Some (map (\<lambda>f. Str (sample_fields_of f ! i)) fs)"
proof -
  let ?st = "nft @ [a, b, c]"
  have mem: "?st ! i \<in> set ?st" using assms(4) by (intro nth_mem) simp
  have "map (\<lambda>row. case map_of (snd row) (?st ! i) of None \<Rightarrow> NaN | Some v \<Rightarrow> Str v)
          (map (\<lambda>f. (sample_name_of f, sample_record ?st f)) fs)
        = map (\<lambda>f. Str (sample_fields_of f ! i)) fs"
    using assms(2) sample_record_nth [OF _ assms(3,4)] by (simp add: comp_def)
  then show ?thesis
    using mem by (simp only: DataFrame_transpose_map_of samples_union_keys [OF assms(1,2,3)] if_True)
qed

subsection \<open>Body parsing\<close>



subsection \<open>Discovery\<close>

text \<open>
  C5. \<^verbatim>\<open>sample_information\<close> raises the no-input error exactly when the glob for
  \<^verbatim>\<open>*.sample\<close> finds no file, whatever \<^verbatim>\<open>check_only\<close> is: with no match it raises
  it, and with at least one match it never does.
\<close>

theorem no_input_error_iff:
  "sample_information PARAMS d check_only = Inl NoInputError \<longleftrightarrow> glob_sample d = []"
proof
  assume a: "sample_information PARAMS d check_only = Inl NoInputError"
  show "glob_sample d = []"
  proof (rule ccontr)
    assume ne: "glob_sample d \<noteq> []"
    from sample_information_error [OF a] ne
    obtain f st samples' where
      "process_sample_file (split_str CHR '','' (PARAMS_name_field_titles PARAMS)) st samples' f
         = Inl NoInputError"
      by auto
    from process_sample_file_error [OF this] show False by simp
  qed
next
  assume "glob_sample d = []"
  then show "sample_information PARAMS d check_only = Inl NoInputError"
    by (simp add: sample_information_def)
qed

text \<open>
  A directory with no visible \<^verbatim>\<open>*.sample\<close> name, for both values of \<^verbatim>\<open>check_only\<close>,
  and a directory with one manifest, whose name is malformed: a different error.
\<close>

theorem no_input_error_iff_witness:
  "glob_sample [(''readme.txt'', ''x''), (''.hidden.sample'', ''/data/runA'')] = []
   \<and> sample_information \<lparr>PARAMS_name_field_titles = ''donor'', PARAMS_sample_fields = None\<rparr>
         [(''readme.txt'', ''x''), (''.hidden.sample'', ''/data/runA'')] True = Inl NoInputError
   \<and> sample_information \<lparr>PARAMS_name_field_titles = ''donor'', PARAMS_sample_fields = None\<rparr>
         [(''readme.txt'', ''x''), (''.hidden.sample'', ''/data/runA'')] False = Inl NoInputError
   \<and> glob_sample [(''bad.sample'', '''')] \<noteq> []
   \<and> sample_information \<lparr>PARAMS_name_field_titles = ''donor'', PARAMS_sample_fields = None\<rparr>
         [(''bad.sample'', '''')] True \<noteq> Inl NoInputError"
proof -
  let ?P = "\<lparr>PARAMS_name_field_titles = ''donor'', PARAMS_sample_fields = None\<rparr>"
  have g1: "glob_sample [(''readme.txt'', ''x''), (''.hidden.sample'', ''/data/runA'')] = []"
    by code_simp
  have g2: "glob_sample [(''bad.sample'', '''')] \<noteq> []" by code_simp
  show ?thesis
    using g1 g2
      no_input_error_iff [of ?P "[(''readme.txt'', ''x''), (''.hidden.sample'', ''/data/runA'')]" True]
      no_input_error_iff [of ?P "[(''readme.txt'', ''x''), (''.hidden.sample'', ''/data/runA'')]" False]
      no_input_error_iff [of ?P "[(''bad.sample'', '''')]" True]
    by (simp only: simp_thms)
qed

subsection \<open>Name parsing\<close>

text \<open>
  C2. A manifest whose basename does not split into exactly four dot-separated sections
  makes the loop body raise the malformed-name error, which carries the basename and the
  expected format; a basename with exactly four sections never raises it.  For the whole
  function: when the manifests discovered before it are accepted, the call fails with
  that error, and when every discovered basename has four sections the call never does.
\<close>

theorem malformed_manifest_name:
  "(length (split_str CHR ''.'' (basename sample_file)) \<noteq> 4 \<longrightarrow>
      process_sample_file nft st samples sample_file
        = Inl (MalformedManifestNameError (basename sample_file) expected_format))
   \<and> (length (split_str CHR ''.'' (basename sample_file)) = 4 \<longrightarrow>
        (\<forall>b p. process_sample_file nft st samples sample_file \<noteq> Inl (MalformedManifestNameError b p)))
   \<and> (glob_sample d = pre @ sample_file # post
        \<and> (\<forall>g\<in>set pre. valid_sample_file (split_str CHR '','' (PARAMS_name_field_titles PARAMS)) g)
        \<and> length (split_str CHR ''.'' (basename sample_file)) \<noteq> 4 \<longrightarrow>
        sample_information PARAMS d check_only
          = Inl (MalformedManifestNameError (basename sample_file) expected_format))
   \<and> ((\<forall>g\<in>set (glob_sample d). length (split_str CHR ''.'' (basename g)) = 4) \<longrightarrow>
        (\<forall>b p. sample_information PARAMS d check_only \<noteq> Inl (MalformedManifestNameError b p)))"
proof (intro conjI impI allI)
  assume "length (split_str CHR ''.'' (basename sample_file)) \<noteq> 4"
  then show "process_sample_file nft st samples sample_file
        = Inl (MalformedManifestNameError (basename sample_file) expected_format)"
    by (simp add: process_sample_file_def Let_def)
next
  fix b p
  assume "length (split_str CHR ''.'' (basename sample_file)) = 4"
  then show "process_sample_file nft st samples sample_file \<noteq> Inl (MalformedManifestNameError b p)"
    by (simp add: process_sample_file_def Let_def)
next
  assume a: "glob_sample d = pre @ sample_file # post
        \<and> (\<forall>g\<in>set pre. valid_sample_file (split_str CHR '','' (PARAMS_name_field_titles PARAMS)) g)
        \<and> length (split_str CHR ''.'' (basename sample_file)) \<noteq> 4"
  then have "process_sample_file (split_str CHR '','' (PARAMS_name_field_titles PARAMS)) [] [] sample_file
     = Inl (MalformedManifestNameError (basename sample_file) expected_format)"
    by (simp add: process_sample_file_def Let_def)
  with a show "sample_information PARAMS d check_only
          = Inl (MalformedManifestNameError (basename sample_file) expected_format)"
    using sample_information_first_error by blast
next
  fix b p
  assume all4: "\<forall>g\<in>set (glob_sample d). length (split_str CHR ''.'' (basename g)) = 4"
  show "sample_information PARAMS d check_only \<noteq> Inl (MalformedManifestNameError b p)"
  proof
    assume a: "sample_information PARAMS d check_only = Inl (MalformedManifestNameError b p)"
    from sample_information_error [OF a]
    obtain f st samples' where f: "f \<in> set (glob_sample d)"
      and "process_sample_file (split_str CHR '','' (PARAMS_name_field_titles PARAMS)) st samples' f
         = Inl (MalformedManifestNameError b p)"
      by auto
    from process_sample_file_error [OF this(2)] all4 f show False by auto
  qed
qed

theorem malformed_manifest_name_witness:
  "length (split_str CHR ''.'' (basename ''data.dir/bad.sample'')) \<noteq> 4
   \<and> process_sample_file [''donor''] [''donor'', ''ncells'', ''seq_id'', ''file''] [] ''data.dir/bad.sample''
       = Inl (MalformedManifestNameError ''bad.sample'' ''sample_name_fields.ncells.seq_batch.sample'')
   \<and> length (split_str CHR ''.'' (basename ''data.dir/a.1.1.sample'')) = 4
   \<and> (\<forall>b p. process_sample_file [''donor''] [''donor'', ''ncells'', ''seq_id'', ''file''] [] ''data.dir/a.1.1.sample''
          \<noteq> Inl (MalformedManifestNameError b p))
   \<and> glob_sample [(''a.1.1.sample'', ''/x''), (''bad.sample'', ''/y'')]
       = [''data.dir/a.1.1.sample''] @ ''data.dir/bad.sample'' # []
   \<and> valid_sample_file (split_str CHR '','' ''donor'') ''data.dir/a.1.1.sample''
   \<and> sample_information \<lparr>PARAMS_name_field_titles = ''donor'', PARAMS_sample_fields = None\<rparr>
         [(''a.1.1.sample'', ''/x''), (''bad.sample'', ''/y'')] False
       = Inl (MalformedManifestNameError ''bad.sample'' ''sample_name_fields.ncells.seq_batch.sample'')
   \<and> glob_sample [(''a.1.1.sample'', ''/x''), (''sample_id.1.1.sample'', ''/y'')]
       = [''data.dir/a.1.1.sample'', ''data.dir/sample_id.1.1.sample'']
   \<and> length (split_str CHR ''.'' (basename ''data.dir/sample_id.1.1.sample'')) = 4
   \<and> (\<forall>b p. sample_information \<lparr>PARAMS_name_field_titles = ''donor'', PARAMS_sample_fields = None\<rparr>
         [(''a.1.1.sample'', ''/x''), (''sample_id.1.1.sample'', ''/y'')] False
       \<noteq> Inl (MalformedManifestNameError b p))"
proof -
  let ?P = "\<lparr>PARAMS_name_field_titles = ''donor'', PARAMS_sample_fields = None\<rparr>"
  let ?D = "[(''a.1.1.sample'', ''/x''), (''bad.sample'', ''/y'')]"
  let ?E = "[(''a.1.1.sample'', ''/x''), (''sample_id.1.1.sample'', ''/y'')]"
  let ?st = "[''donor'', ''ncells'', ''seq_id'', ''file'']"
  have h1: "length (split_str CHR ''.'' (basename ''data.dir/bad.sample'')) \<noteq> 4" by code_simp
  have h2: "length (split_str CHR ''.'' (basename ''data.dir/a.1.1.sample'')) = 4" by code_simp
  have h3: "length (split_str CHR ''.'' (basename ''data.dir/sample_id.1.1.sample'')) = 4" by code_simp
  have g: "glob_sample ?D = [''data.dir/a.1.1.sample''] @ ''data.dir/bad.sample'' # []" by code_simp
  have g': "glob_sample ?E = [''data.dir/a.1.1.sample'', ''data.dir/sample_id.1.1.sample'']" by code_simp
  have v: "valid_sample_file (split_str CHR '','' ''donor'') ''data.dir/a.1.1.sample''" by code_simp
  have b: "basename ''data.dir/bad.sample'' = ''bad.sample''" by code_simp
  have c1: "process_sample_file [''donor''] ?st [] ''data.dir/bad.sample''
       = Inl (MalformedManifestNameError ''bad.sample'' ''sample_name_fields.ncells.seq_batch.sample'')"
    using malformed_manifest_name [where sample_file = "''data.dir/bad.sample''" and nft = "[''donor'']"
        and st = ?st and samples = "[]"] h1
    by (simp only: b expected_format_def simp_thms)
  have c2: "\<forall>b p. process_sample_file [''donor''] ?st [] ''data.dir/a.1.1.sample''
          \<noteq> Inl (MalformedManifestNameError b p)"
    using malformed_manifest_name [where sample_file = "''data.dir/a.1.1.sample''" and nft = "[''donor'']"
        and st = ?st and samples = "[]"] h2
    by (simp only: not_False_eq_True simp_thms)
  have vs: "\<forall>g\<in>set [''data.dir/a.1.1.sample'']. valid_sample_file
      (split_str CHR '','' (PARAMS_name_field_titles ?P)) g"
    using v by simp
  have c3: "sample_information ?P ?D False
       = Inl (MalformedManifestNameError ''bad.sample'' ''sample_name_fields.ncells.seq_batch.sample'')"
    using malformed_manifest_name [where sample_file = "''data.dir/bad.sample''" and d = ?D
        and pre = "[''data.dir/a.1.1.sample'']" and post = "[]" and PARAMS = ?P and check_only = False]
      h1 g vs
    by (simp only: b expected_format_def simp_thms)
  have all4: "\<forall>g\<in>set (glob_sample ?E). length (split_str CHR ''.'' (basename g)) = 4"
    unfolding g' using h2 h3 by simp
  have c4: "\<forall>b p. sample_information ?P ?E False \<noteq> Inl (MalformedManifestNameError b p)"
    using malformed_manifest_name [where d = ?E and PARAMS = ?P and check_only = False] all4
    by blast
  show ?thesis using h1 h2 h3 g g' v c1 c2 c3 c4 by (intro conjI)
qed

text \<open>
  C4. A manifest whose basename has exactly four dot-separated sections and whose first
  section contains \<^verbatim>\<open>sample_id\<close> makes the loop body raise the reserved-name error;
  the whole call fails with it when the manifests discovered before are accepted.
\<close>

theorem reserved_sample_name:
  "(length (split_str CHR ''.'' (basename sample_file)) = 4
      \<and> contains ''sample_id'' (hd (split_str CHR ''.'' (basename sample_file))) \<longrightarrow>
      process_sample_file nft st samples sample_file = Inl ReservedNameError)
   \<and> (glob_sample d = pre @ sample_file # post
        \<and> (\<forall>g\<in>set pre. valid_sample_file (split_str CHR '','' (PARAMS_name_field_titles PARAMS)) g)
        \<and> length (split_str CHR ''.'' (basename sample_file)) = 4
        \<and> contains ''sample_id'' (hd (split_str CHR ''.'' (basename sample_file))) \<longrightarrow>
        sample_information PARAMS d check_only = Inl ReservedNameError)"
proof (intro conjI impI)
  assume "length (split_str CHR ''.'' (basename sample_file)) = 4
      \<and> contains ''sample_id'' (hd (split_str CHR ''.'' (basename sample_file)))"
  then show "process_sample_file nft st samples sample_file = Inl ReservedNameError"
    by (simp add: process_sample_file_def Let_def)
next
  assume a: "glob_sample d = pre @ sample_file # post
        \<and> (\<forall>g\<in>set pre. valid_sample_file (split_str CHR '','' (PARAMS_name_field_titles PARAMS)) g)
        \<and> length (split_str CHR ''.'' (basename sample_file)) = 4
        \<and> contains ''sample_id'' (hd (split_str CHR ''.'' (basename sample_file)))"
  then have "process_sample_file (split_str CHR '','' (PARAMS_name_field_titles PARAMS)) [] [] sample_file
     = Inl ReservedNameError"
    by (simp add: process_sample_file_def Let_def)
  with a show "sample_information PARAMS d check_only = Inl ReservedNameError"
    using sample_information_first_error by blast
qed

theorem reserved_sample_name_witness:
  "length (split_str CHR ''.'' (basename ''data.dir/sample_id_x.1.1.sample'')) = 4
   \<and> contains ''sample_id'' (hd (split_str CHR ''.'' (basename ''data.dir/sample_id_x.1.1.sample'')))
   \<and> process_sample_file [''donor'', ''condition''] [''donor'', ''condition'', ''ncells'', ''seq_id'', ''file'']
         [] ''data.dir/sample_id_x.1.1.sample'' = Inl ReservedNameError
   \<and> glob_sample [(''a_b.1.1.sample'', ''/x''), (''sample_id_x.1.1.sample'', ''/y'')]
       = [''data.dir/a_b.1.1.sample''] @ ''data.dir/sample_id_x.1.1.sample'' # []
   \<and> valid_sample_file (split_str CHR '','' ''donor,condition'') ''data.dir/a_b.1.1.sample''
   \<and> sample_information \<lparr>PARAMS_name_field_titles = ''donor,condition'', PARAMS_sample_fields = None\<rparr>
         [(''a_b.1.1.sample'', ''/x''), (''sample_id_x.1.1.sample'', ''/y'')] True
       = Inl ReservedNameError"
proof -
  let ?P = "\<lparr>PARAMS_name_field_titles = ''donor,condition'', PARAMS_sample_fields = None\<rparr>"
  let ?D = "[(''a_b.1.1.sample'', ''/x''), (''sample_id_x.1.1.sample'', ''/y'')]"
  let ?st = "[''donor'', ''condition'', ''ncells'', ''seq_id'', ''file'']"
  let ?f = "''data.dir/sample_id_x.1.1.sample''"
  have h1: "length (split_str CHR ''.'' (basename ?f)) = 4" by code_simp
  have h2: "contains ''sample_id'' (hd (split_str CHR ''.'' (basename ?f)))" by code_simp
  have g: "glob_sample ?D = [''data.dir/a_b.1.1.sample''] @ ?f # []" by code_simp
  have v: "valid_sample_file (split_str CHR '','' ''donor,condition'') ''data.dir/a_b.1.1.sample''"
    by code_simp
  have vs: "\<forall>g\<in>set [''data.dir/a_b.1.1.sample'']. valid_sample_file
      (split_str CHR '','' (PARAMS_name_field_titles ?P)) g"
    using v by simp
  have c1: "process_sample_file [''donor'', ''condition''] ?st [] ?f = Inl ReservedNameError"
    using reserved_sample_name [where sample_file = ?f and nft = "[''donor'', ''condition'']"
        and st = ?st and samples = "[]"] h1 h2
    by (simp only: simp_thms)
  have c2: "sample_information ?P ?D True = Inl ReservedNameError"
    using reserved_sample_name [where sample_file = ?f and d = ?D
        and pre = "[''data.dir/a_b.1.1.sample'']" and post = "[]" and PARAMS = ?P and check_only = True]
      h1 h2 g vs
    by (simp only: simp_thms)
  show ?thesis using h1 h2 g v c1 c2 by (intro conjI)
qed

text \<open>
  C3, as amended. A manifest whose basename has exactly four dot-separated sections,
  whose first section does not contain \<^verbatim>\<open>sample_id\<close>, and whose first section splits
  on underscore into a number of fields different from the number of name field titles
  makes the loop body raise the field-count error, with the sample name and the titles;
  the whole call fails with it when the manifests discovered before are accepted.
\<close>

theorem field_count_mismatch:
  "(length (split_str CHR ''.'' (basename sample_file)) = 4
      \<and> \<not> contains ''sample_id'' (hd (split_str CHR ''.'' (basename sample_file)))
      \<and> length (split_str CHR ''_'' (hd (split_str CHR ''.'' (basename sample_file)))) \<noteq> length nft \<longrightarrow>
      process_sample_file nft st samples sample_file
        = Inl (FieldCountMismatchError (hd (split_str CHR ''.'' (basename sample_file))) nft))
   \<and> (glob_sample d = pre @ sample_file # post
        \<and> (\<forall>g\<in>set pre. valid_sample_file (split_str CHR '','' (PARAMS_name_field_titles PARAMS)) g)
        \<and> length (split_str CHR ''.'' (basename sample_file)) = 4
        \<and> \<not> contains ''sample_id'' (hd (split_str CHR ''.'' (basename sample_file)))
        \<and> length (split_str CHR ''_'' (hd (split_str CHR ''.'' (basename sample_file))))
            \<noteq> length (split_str CHR '','' (PARAMS_name_field_titles PARAMS)) \<longrightarrow>
        sample_information PARAMS d check_only
          = Inl (FieldCountMismatchError (hd (split_str CHR ''.'' (basename sample_file)))
                   (split_str CHR '','' (PARAMS_name_field_titles PARAMS))))"
proof (intro conjI impI)
  assume "length (split_str CHR ''.'' (basename sample_file)) = 4
      \<and> \<not> contains ''sample_id'' (hd (split_str CHR ''.'' (basename sample_file)))
      \<and> length (split_str CHR ''_'' (hd (split_str CHR ''.'' (basename sample_file)))) \<noteq> length nft"
  then show "process_sample_file nft st samples sample_file
        = Inl (FieldCountMismatchError (hd (split_str CHR ''.'' (basename sample_file))) nft)"
    by (simp add: process_sample_file_def Let_def)
next
  assume a: "glob_sample d = pre @ sample_file # post
        \<and> (\<forall>g\<in>set pre. valid_sample_file (split_str CHR '','' (PARAMS_name_field_titles PARAMS)) g)
        \<and> length (split_str CHR ''.'' (basename sample_file)) = 4
        \<and> \<not> contains ''sample_id'' (hd (split_str CHR ''.'' (basename sample_file)))
        \<and> length (split_str CHR ''_'' (hd (split_str CHR ''.'' (basename sample_file))))
            \<noteq> length (split_str CHR '','' (PARAMS_name_field_titles PARAMS))"
  then have "process_sample_file (split_str CHR '','' (PARAMS_name_field_titles PARAMS)) [] [] sample_file
     = Inl (FieldCountMismatchError (hd (split_str CHR ''.'' (basename sample_file)))
                   (split_str CHR '','' (PARAMS_name_field_titles PARAMS)))"
    by (simp add: process_sample_file_def Let_def)
  with a show "sample_information PARAMS d check_only
          = Inl (FieldCountMismatchError (hd (split_str CHR ''.'' (basename sample_file)))
                   (split_str CHR '','' (PARAMS_name_field_titles PARAMS)))"
    using sample_information_first_error by blast
qed

theorem field_count_mismatch_witness:
  "length (split_str CHR ''.'' (basename ''data.dir/a_b.1.1.sample'')) = 4
   \<and> \<not> contains ''sample_id'' (hd (split_str CHR ''.'' (basename ''data.dir/a_b.1.1.sample'')))
   \<and> length (split_str CHR ''_'' (hd (split_str CHR ''.'' (basename ''data.dir/a_b.1.1.sample''))))
       \<noteq> length [''donor'']
   \<and> process_sample_file [''donor''] [''donor'', ''ncells'', ''seq_id'', ''file'']
         [] ''data.dir/a_b.1.1.sample'' = Inl (FieldCountMismatchError ''a_b'' [''donor''])
   \<and> glob_sample [(''x.1.1.sample'', ''/x''), (''a_b.1.1.sample'', ''/y'')]
       = [''data.dir/x.1.1.sample''] @ ''data.dir/a_b.1.1.sample'' # []
   \<and> valid_sample_file (split_str CHR '','' ''donor'') ''data.dir/x.1.1.sample''
   \<and> sample_information \<lparr>PARAMS_name_field_titles = ''donor'', PARAMS_sample_fields = None\<rparr>
         [(''x.1.1.sample'', ''/x''), (''a_b.1.1.sample'', ''/y'')] True
       = Inl (FieldCountMismatchError ''a_b'' [''donor''])"
proof -
  let ?P = "\<lparr>PARAMS_name_field_titles = ''donor'', PARAMS_sample_fields = None\<rparr>"
  let ?D = "[(''x.1.1.sample'', ''/x''), (''a_b.1.1.sample'', ''/y'')]"
  let ?st = "[''donor'', ''ncells'', ''seq_id'', ''file'']"
  let ?f = "''data.dir/a_b.1.1.sample''"
  have h1: "length (split_str CHR ''.'' (basename ?f)) = 4" by code_simp
  have h2: "\<not> contains ''sample_id'' (hd (split_str CHR ''.'' (basename ?f)))" by code_simp
  have h3: "length (split_str CHR ''_'' (hd (split_str CHR ''.'' (basename ?f)))) \<noteq> length [''donor'']"
    by code_simp
  have t: "split_str CHR '','' (PARAMS_name_field_titles ?P) = [''donor'']" by code_simp
  have n: "hd (split_str CHR ''.'' (basename ?f)) = ''a_b''" by code_simp
  have g: "glob_sample ?D = [''data.dir/x.1.1.sample''] @ ?f # []" by code_simp
  have v: "valid_sample_file (split_str CHR '','' ''donor'') ''data.dir/x.1.1.sample''"
    by code_simp
  have vs: "\<forall>g\<in>set [''data.dir/x.1.1.sample'']. valid_sample_file
      (split_str CHR '','' (PARAMS_name_field_titles ?P)) g"
    using v by simp
  have h3': "length (split_str CHR ''_'' (hd (split_str CHR ''.'' (basename ?f))))
       \<noteq> length (split_str CHR '','' (PARAMS_name_field_titles ?P))"
    unfolding t by (rule h3)
  have c1: "process_sample_file [''donor''] ?st [] ?f
      = Inl (FieldCountMismatchError (hd (split_str CHR ''.'' (basename ?f))) [''donor''])"
    using field_count_mismatch [where sample_file = ?f and nft = "[''donor'']"
        and st = ?st and samples = "[]"] h1 h2 h3
    by (simp only: simp_thms)
  have c2: "sample_information ?P ?D True
      = Inl (FieldCountMismatchError (hd (split_str CHR ''.'' (basename ?f)))
          (split_str CHR '','' (PARAMS_name_field_titles ?P)))"
    using field_count_mismatch [where sample_file = ?f and d = ?D
        and pre = "[''data.dir/x.1.1.sample'']" and post = "[]" and PARAMS = ?P and check_only = True]
      h1 h2 h3' g vs
    by (simp only: simp_thms)
  show ?thesis using h1 h2 h3 g v c1 [unfolded n] c2 [unfolded n t] by (intro conjI)
qed

text \<open>
  The reserved-name check (line 195) comes before the field count check (line 198): the
  name \<^verbatim>\<open>sample_id\<close> has two underscore fields against one title, and the error is the
  reserved-name one.
\<close>

theorem field_count_mismatch_counterexample:
  "length (split_str CHR ''.'' (basename ''data.dir/sample_id.1000.1.sample'')) = 4
   \<and> length (split_str CHR ''_'' (hd (split_str CHR ''.'' (basename ''data.dir/sample_id.1000.1.sample''))))
       \<noteq> length (split_str CHR '','' ''donor'')
   \<and> process_sample_file [''donor''] [''donor'', ''ncells'', ''seq_id'', ''file'']
         [] ''data.dir/sample_id.1000.1.sample'' = Inl ReservedNameError
   \<and> sample_information \<lparr>PARAMS_name_field_titles = ''donor'', PARAMS_sample_fields = None\<rparr>
         [(''sample_id.1000.1.sample'', ''/data/runA'')] True = Inl ReservedNameError"
  by code_simp

text \<open>
  C8, as amended. For a manifest the loop body accepts, the value stored under
  \<^verbatim>\<open>ncells\<close> is the second dot-separated section of the basename as it is written;
  and the loop body accepts a manifest exactly when its basename has four sections, the
  first without \<^verbatim>\<open>sample_id\<close> and with as many underscore fields as there are titles:
  no check looks at the second section.
\<close>

theorem ncells_recorded_verbatim:
  "(process_sample_file nft (nft @ [''ncells'', ''seq_id'', ''file'']) samples sample_file = Inr samples' \<longrightarrow>
      length (split_str CHR ''.'' (basename sample_file)) = 4
      \<and> (\<exists>r. map_of samples' (hd (split_str CHR ''.'' (basename sample_file))) = Some r
            \<and> map_of r ''ncells'' = Some (split_str CHR ''.'' (basename sample_file) ! 1)))
   \<and> ((\<exists>s. process_sample_file nft st samples sample_file = Inr s) \<longleftrightarrow>
        length (split_str CHR ''.'' (basename sample_file)) = 4
        \<and> \<not> contains ''sample_id'' (hd (split_str CHR ''.'' (basename sample_file)))
        \<and> length (split_str CHR ''_'' (hd (split_str CHR ''.'' (basename sample_file)))) = length nft)"
proof (intro conjI impI)
  let ?st = "nft @ [''ncells'', ''seq_id'', ''file'']"
  assume a: "process_sample_file nft ?st samples sample_file = Inr samples'"
  then have v: "valid_sample_file nft sample_file"
    using process_sample_file_Inr_iff by blast
  then show "length (split_str CHR ''.'' (basename sample_file)) = 4"
    by (simp add: valid_sample_file_def Let_def)
  from a have "samples' = AList.update (sample_name_of sample_file) (sample_record ?st sample_file) samples"
    by (simp add: process_sample_file_valid [OF v])
  then have "map_of samples' (sample_name_of sample_file) = Some (sample_record ?st sample_file)"
    by (simp add: AList.update_conv')
  with sample_record_fixed [OF v]
  show "\<exists>r. map_of samples' (hd (split_str CHR ''.'' (basename sample_file))) = Some r
            \<and> map_of r ''ncells'' = Some (split_str CHR ''.'' (basename sample_file) ! 1)"
    by (simp add: sample_name_of_def)
next
  show "(\<exists>s. process_sample_file nft st samples sample_file = Inr s) \<longleftrightarrow>
        length (split_str CHR ''.'' (basename sample_file)) = 4
        \<and> \<not> contains ''sample_id'' (hd (split_str CHR ''.'' (basename sample_file)))
        \<and> length (split_str CHR ''_'' (hd (split_str CHR ''.'' (basename sample_file)))) = length nft"
    by (simp only: process_sample_file_Inr_iff) (simp add: valid_sample_file_def Let_def)
qed

theorem ncells_recorded_verbatim_witness:
  "process_sample_file [''donor'', ''condition''] ([''donor'', ''condition''] @ [''ncells'', ''seq_id'', ''file''])
        [] ''data.dir/donor1_stim.2000.1.sample''
     = Inr [(''donor1_stim'',
             [(''donor'', ''donor1''), (''condition'', ''stim''), (''ncells'', ''2000''),
              (''seq_id'', ''1''), (''file'', ''data.dir/donor1_stim.2000.1.sample'')])]
   \<and> (\<exists>r. map_of [(''donor1_stim'',
             [(''donor'', ''donor1''), (''condition'', ''stim''), (''ncells'', ''2000''),
              (''seq_id'', ''1''), (''file'', ''data.dir/donor1_stim.2000.1.sample'')])] ''donor1_stim'' = Some r
          \<and> map_of r ''ncells'' = Some ''2000'')
   \<and> (\<exists>s. process_sample_file [''donor'', ''condition''] [] [] ''data.dir/donor1_stim.minus5.1.sample'' = Inr s)"
proof -
  let ?f = "''data.dir/donor1_stim.2000.1.sample''"
  let ?g = "''data.dir/donor1_stim.minus5.1.sample''"
  let ?S = "[(''donor1_stim'',
             [(''donor'', ''donor1''), (''condition'', ''stim''), (''ncells'', ''2000''),
              (''seq_id'', ''1''), (''file'', ''data.dir/donor1_stim.2000.1.sample'')])]"
  have h: "process_sample_file [''donor'', ''condition'']
      ([''donor'', ''condition''] @ [''ncells'', ''seq_id'', ''file'']) [] ?f = Inr ?S"
    by code_simp
  have e1: "hd (split_str CHR ''.'' (basename ?f)) = ''donor1_stim''" by code_simp
  have e2: "split_str CHR ''.'' (basename ?f) ! 1 = ''2000''" by code_simp
  have v: "length (split_str CHR ''.'' (basename ?g)) = 4
        \<and> \<not> contains ''sample_id'' (hd (split_str CHR ''.'' (basename ?g)))
        \<and> length (split_str CHR ''_'' (hd (split_str CHR ''.'' (basename ?g))))
            = length [''donor'', ''condition'']"
    by code_simp
  have c1: "\<exists>r. map_of ?S ''donor1_stim'' = Some r \<and> map_of r ''ncells'' = Some ''2000''"
    using ncells_recorded_verbatim [where nft = "[''donor'', ''condition'']" and samples = "[]"
        and sample_file = ?f and samples' = ?S] h
    by (simp only: e1 e2 simp_thms)
  have c2: "\<exists>s. process_sample_file [''donor'', ''condition''] [] [] ?g = Inr s"
    using ncells_recorded_verbatim [where nft = "[''donor'', ''condition'']" and samples = "[]"
        and sample_file = ?g and st = "[]"] v
    by (simp only: simp_thms)
  show ?thesis using h c1 c2 by (intro conjI)
qed

text \<open>A manifest with \<^verbatim>\<open>abc\<close> for the cell count passes the check and is recorded.\<close>

theorem ncells_counterexample:
  "sample_information \<lparr>PARAMS_name_field_titles = ''donor,condition'', PARAMS_sample_fields = None\<rparr>
     [(''donor1_stim.abc.1.sample'', ''/data/runA'')] True = Inr None
   \<and> process_sample_file [''donor'', ''condition''] [''donor'', ''condition'', ''ncells'', ''seq_id'', ''file'']
        [] ''data.dir/donor1_stim.abc.1.sample''
       = Inr [(''donor1_stim'',
               [(''donor'', ''donor1''), (''condition'', ''stim''), (''ncells'', ''abc''),
                (''seq_id'', ''1''), (''file'', ''data.dir/donor1_stim.abc.1.sample'')])]
   \<and> \<not> denotes_positive_integer ''abc''"
  by code_simp

subsection \<open>The sample table\<close>



text \<open>
  C7, as amended. When the check-only pass succeeds, no two manifests have the same
  sample name, \<^verbatim>\<open>sample_fields\<close> is unset or names columns of the table, and the name
  field titles are distinct and differ from the seven fixed labels, the columns of the
  returned table are exactly, in this order: the name field titles, \<^verbatim>\<open>ncells\<close>,
  \<^verbatim>\<open>seq_id\<close>, \<^verbatim>\<open>file\<close>, \<^verbatim>\<open>library_id\<close>, \<^verbatim>\<open>sample_id\<close>, \<^verbatim>\<open>molecule_h5\<close> and
  \<^verbatim>\<open>agg_id\<close>.  The column of the i-th title holds the i-th underscore field of each
  sample name, \<^verbatim>\<open>ncells\<close> and \<^verbatim>\<open>seq_id\<close> hold the second and third sections of each
  basename, \<^verbatim>\<open>file\<close> the discovered path, \<^verbatim>\<open>library_id\<close> the row label (the sample
  name), \<^verbatim>\<open>molecule_h5\<close> the row label followed by
  \<^verbatim>\<open>-count/outs/molecule_info.h5\<close>, and \<^verbatim>\<open>sample_id\<close> equals \<^verbatim>\<open>library_id\<close> when
  \<^verbatim>\<open>sample_fields\<close> is unset.
\<close>

theorem sample_table_columns:
  assumes "sample_information PARAMS d True = Inr None"
    and "distinct (map sample_name_of (glob_sample d))"
    and "sample_fields_ok PARAMS"
    and "distinct (sample_titles_of PARAMS @ [''library_id'', ''sample_id'', ''molecule_h5'', ''agg_id''])"
  shows "\<exists>t. sample_information PARAMS d False = Inr (Some t)
     \<and> map fst (df_columns t) =
         split_str CHR '','' (PARAMS_name_field_titles PARAMS)
         @ [''ncells'', ''seq_id'', ''file'', ''library_id'', ''sample_id'', ''molecule_h5'', ''agg_id'']
     \<and> (\<forall>i<length (split_str CHR '','' (PARAMS_name_field_titles PARAMS)).
           map_of (df_columns t) (split_str CHR '','' (PARAMS_name_field_titles PARAMS) ! i)
             = Some (map (\<lambda>f. Str (split_str CHR ''_'' (sample_name_of f) ! i)) (glob_sample d)))
     \<and> map_of (df_columns t) ''ncells''
         = Some (map (\<lambda>f. Str (split_str CHR ''.'' (basename f) ! 1)) (glob_sample d))
     \<and> map_of (df_columns t) ''seq_id''
         = Some (map (\<lambda>f. Str (split_str CHR ''.'' (basename f) ! 2)) (glob_sample d))
     \<and> map_of (df_columns t) ''file'' = Some (map Str (glob_sample d))
     \<and> df_index t = map sample_name_of (glob_sample d)
     \<and> map_of (df_columns t) ''library_id'' = Some (map Str (df_index t))
     \<and> map_of (df_columns t) ''molecule_h5''
         = Some (map (\<lambda>x. Str (x @ ''-count/outs/molecule_info.h5'')) (df_index t))
     \<and> (PARAMS_sample_fields PARAMS = None \<longrightarrow>
           map_of (df_columns t) ''sample_id'' = Some (map Str (df_index t)))"
proof -
  let ?nft = "split_str CHR '','' (PARAMS_name_field_titles PARAMS)"
  let ?st = "?nft @ [''ncells'', ''seq_id'', ''file'']"
  let ?fs = "glob_sample d"
  let ?s = "map (\<lambda>f. (sample_name_of f, sample_record ?st f)) ?fs"
  from assms(1) have ne: "?fs \<noteq> []" and valid: "\<forall>f\<in>set ?fs. valid_sample_file ?nft f"
    by (simp_all add: sample_information_check_iff)
  have s: "samples_of (sample_titles_of PARAMS) ?fs = ?s"
    by (simp add: samples_of_distinct [OF assms(2)] sample_titles_of_def)
  have "\<exists>sid. sample_information PARAMS d False = Inr (Some (table_with ?s sid))
          \<and> length sid = length ?s
          \<and> (PARAMS_sample_fields PARAMS = None \<longrightarrow> sid = map Str (map fst ?s))"
    using sample_information_table [OF ne valid assms(3)] by (simp only: s)
  then obtain sid
    where t: "sample_information PARAMS d False = Inr (Some (table_with ?s sid))"
      and sidNone: "PARAMS_sample_fields PARAMS = None \<longrightarrow> sid = map Str (map fst ?s)"
    by (elim exE conjE)
  let ?t = "table_with ?s sid"
  have dst: "distinct ?st" and d4: "distinct (?st @ [''library_id'', ''sample_id'', ''molecule_h5'', ''agg_id''])"
    using assms(4) by (simp_all add: sample_titles_of_def)
  have idx: "df_index ?t = map sample_name_of ?fs" by (simp add: comp_def)
  have uk: "union_keys (map (\<lambda>row. map fst (snd row)) ?s) = ?st"
    by (rule samples_union_keys [OF ne valid dst])
  have names: "map fst (df_columns ?t) =
      ?nft @ [''ncells'', ''seq_id'', ''file'', ''library_id'', ''sample_id'', ''molecule_h5'', ''agg_id'']"
    using table_with_names [OF d4 uk, of sid] by simp
  have col: "map_of (df_columns ?t) (?st ! i) = Some (map (\<lambda>f. Str (sample_fields_of f ! i)) ?fs)"
    if i: "i < length ?nft + 3" for i
  proof -
    have mem: "?st ! i \<in> set ?st" using i by (intro nth_mem) simp
    with d4 have "?st ! i \<noteq> ''library_id''" "?st ! i \<noteq> ''sample_id''"
      "?st ! i \<noteq> ''molecule_h5''" "?st ! i \<noteq> ''agg_id''"
      by auto
    from table_with_other [OF this]
    have "map_of (df_columns ?t) (?st ! i) = map_of (df_columns (DataFrame_transpose ?s)) (?st ! i)" .
    then show ?thesis by (simp only: transpose_column_nth [OF ne valid dst i])
  qed
  have fields: "map (\<lambda>f. Str (sample_fields_of f ! i)) ?fs = map (\<lambda>f. Str (g f)) ?fs"
    if "\<And>f. valid_sample_file ?nft f \<Longrightarrow> sample_fields_of f ! i = g f" for i g
    using valid that by simp
  have c_name: "\<forall>i<length ?nft. map_of (df_columns ?t) (?nft ! i)
             = Some (map (\<lambda>f. Str (split_str CHR ''_'' (sample_name_of f) ! i)) ?fs)"
  proof (intro allI impI)
    fix i assume i: "i < length ?nft"
    have "map (\<lambda>f. Str (sample_fields_of f ! i)) ?fs
            = map (\<lambda>f. Str (split_str CHR ''_'' (sample_name_of f) ! i)) ?fs"
      by (rule fields) (simp add: valid_sample_fields_of valid_name_fields_length nth_append i)
    with col [of i] i show "map_of (df_columns ?t) (?nft ! i)
             = Some (map (\<lambda>f. Str (split_str CHR ''_'' (sample_name_of f) ! i)) ?fs)"
      by (simp add: nth_append)
  qed
  have c_ncells: "map_of (df_columns ?t) ''ncells''
         = Some (map (\<lambda>f. Str (split_str CHR ''.'' (basename f) ! 1)) ?fs)"
  proof -
    have "map (\<lambda>f. Str (sample_fields_of f ! (length ?nft))) ?fs
            = map (\<lambda>f. Str (split_str CHR ''.'' (basename f) ! 1)) ?fs"
      by (rule fields) (simp add: valid_sample_fields_of valid_name_fields_length nth_append)
    with col [of "length ?nft"] show ?thesis by (simp add: nth_append)
  qed
  have c_seq: "map_of (df_columns ?t) ''seq_id''
         = Some (map (\<lambda>f. Str (split_str CHR ''.'' (basename f) ! 2)) ?fs)"
  proof -
    have "map (\<lambda>f. Str (sample_fields_of f ! (length ?nft + 1))) ?fs
            = map (\<lambda>f. Str (split_str CHR ''.'' (basename f) ! 2)) ?fs"
      by (rule fields) (simp add: valid_sample_fields_of valid_name_fields_length nth_append)
    with col [of "length ?nft + 1"] show ?thesis by (simp add: nth_append)
  qed
  have c_file: "map_of (df_columns ?t) ''file'' = Some (map Str ?fs)"
  proof -
    have "map (\<lambda>f. Str (sample_fields_of f ! (length ?nft + 2))) ?fs = map (\<lambda>f. Str f) ?fs"
      by (rule fields) (simp add: valid_sample_fields_of valid_name_fields_length nth_append)
    with col [of "length ?nft + 2"] show ?thesis by (simp add: nth_append)
  qed
  have c_lib: "map_of (df_columns ?t) ''library_id'' = Some (map Str (df_index ?t))"
    by (simp only: table_with_library_id table_with_index)
  have c_mol: "map_of (df_columns ?t) ''molecule_h5''
         = Some (map (\<lambda>x. Str (x @ ''-count/outs/molecule_info.h5'')) (df_index ?t))"
    by (simp only: table_with_molecule_h5 table_with_index)
  have c_sid: "PARAMS_sample_fields PARAMS = None \<longrightarrow>
           map_of (df_columns ?t) ''sample_id'' = Some (map Str (df_index ?t))"
    using sidNone by (simp only: table_with_sample_id table_with_index) simp
  show ?thesis
    by (rule exI [of _ ?t])
      (intro conjI; fact t names c_name c_ncells c_seq c_file idx c_lib c_mol c_sid)
qed

theorem sample_table_columns_witness:
  "sample_information \<lparr>PARAMS_name_field_titles = ''donor,condition'', PARAMS_sample_fields = None\<rparr>
     [(''donor1_stim.2000.1.sample'', ''/data/runA''), (''donor2_ctrl.3000.2.sample'', ''/data/runC'')] True
     = Inr None
   \<and> distinct (map sample_name_of (glob_sample
       [(''donor1_stim.2000.1.sample'', ''/data/runA''), (''donor2_ctrl.3000.2.sample'', ''/data/runC'')]))
   \<and> sample_fields_ok \<lparr>PARAMS_name_field_titles = ''donor,condition'', PARAMS_sample_fields = None\<rparr>
   \<and> distinct (sample_titles_of
         \<lparr>PARAMS_name_field_titles = ''donor,condition'', PARAMS_sample_fields = None\<rparr>
       @ [''library_id'', ''sample_id'', ''molecule_h5'', ''agg_id''])
   \<and> (\<exists>t. sample_information
          \<lparr>PARAMS_name_field_titles = ''donor,condition'', PARAMS_sample_fields = None\<rparr>
          [(''donor1_stim.2000.1.sample'', ''/data/runA''), (''donor2_ctrl.3000.2.sample'', ''/data/runC'')]
          False = Inr (Some t)
        \<and> map fst (df_columns t)
            = [''donor'', ''condition'', ''ncells'', ''seq_id'', ''file'', ''library_id'', ''sample_id'',
               ''molecule_h5'', ''agg_id'']
        \<and> map_of (df_columns t) ''donor'' = Some [Str ''donor1'', Str ''donor2'']
        \<and> map_of (df_columns t) ''condition'' = Some [Str ''stim'', Str ''ctrl'']
        \<and> map_of (df_columns t) ''ncells'' = Some [Str ''2000'', Str ''3000'']
        \<and> map_of (df_columns t) ''seq_id'' = Some [Str ''1'', Str ''2'']
        \<and> map_of (df_columns t) ''file''
            = Some [Str ''data.dir/donor1_stim.2000.1.sample'', Str ''data.dir/donor2_ctrl.3000.2.sample'']
        \<and> df_index t = [''donor1_stim'', ''donor2_ctrl'']
        \<and> map_of (df_columns t) ''library_id'' = Some [Str ''donor1_stim'', Str ''donor2_ctrl'']
        \<and> map_of (df_columns t) ''molecule_h5''
            = Some [Str ''donor1_stim-count/outs/molecule_info.h5'',
                    Str ''donor2_ctrl-count/outs/molecule_info.h5'']
        \<and> map_of (df_columns t) ''sample_id'' = Some [Str ''donor1_stim'', Str ''donor2_ctrl''])"
proof -
  let ?P = "\<lparr>PARAMS_name_field_titles = ''donor,condition'', PARAMS_sample_fields = None\<rparr>"
  let ?D = "[(''donor1_stim.2000.1.sample'', ''/data/runA''), (''donor2_ctrl.3000.2.sample'', ''/data/runC'')]"
  let ?nft = "split_str CHR '','' (PARAMS_name_field_titles ?P)"
  have h1: "sample_information ?P ?D True = Inr None" by code_simp
  have h2: "distinct (map sample_name_of (glob_sample ?D))" by code_simp
  have h3: "sample_fields_ok ?P" by code_simp
  have h4: "distinct (sample_titles_of ?P @ [''library_id'', ''sample_id'', ''molecule_h5'', ''agg_id''])"
    by code_simp
  have e0: "?nft @ [''ncells'', ''seq_id'', ''file'', ''library_id'', ''sample_id'', ''molecule_h5'', ''agg_id'']
    = [''donor'', ''condition'', ''ncells'', ''seq_id'', ''file'', ''library_id'', ''sample_id'',
       ''molecule_h5'', ''agg_id'']"
    by code_simp
  have e1: "map (\<lambda>f. Str (split_str CHR ''.'' (basename f) ! 1)) (glob_sample ?D)
    = [Str ''2000'', Str ''3000'']"
    by code_simp
  have e2: "map (\<lambda>f. Str (split_str CHR ''.'' (basename f) ! 2)) (glob_sample ?D)
    = [Str ''1'', Str ''2'']"
    by code_simp
  have e3: "map Str (glob_sample ?D)
    = [Str ''data.dir/donor1_stim.2000.1.sample'', Str ''data.dir/donor2_ctrl.3000.2.sample'']"
    by code_simp
  have e4: "map sample_name_of (glob_sample ?D) = [''donor1_stim'', ''donor2_ctrl'']" by code_simp
  have e5: "map Str [''donor1_stim'', ''donor2_ctrl''] = [Str ''donor1_stim'', Str ''donor2_ctrl'']"
    by simp
  have e6: "map (\<lambda>x. Str (x @ ''-count/outs/molecule_info.h5'')) [''donor1_stim'', ''donor2_ctrl'']
    = [Str ''donor1_stim-count/outs/molecule_info.h5'', Str ''donor2_ctrl-count/outs/molecule_info.h5'']"
    by simp
  have n0: "0 < length ?nft" and n1: "1 < length ?nft" by code_simp+
  have t0: "?nft ! 0 = ''donor''" and t1: "?nft ! 1 = ''condition''" by code_simp+
  have e7: "map (\<lambda>f. Str (split_str CHR ''_'' (sample_name_of f) ! 0)) (glob_sample ?D)
    = [Str ''donor1'', Str ''donor2'']"
    by code_simp
  have e8: "map (\<lambda>f. Str (split_str CHR ''_'' (sample_name_of f) ! 1)) (glob_sample ?D)
    = [Str ''stim'', Str ''ctrl'']"
    by code_simp
  have none: "PARAMS_sample_fields ?P = None" by simp
  from sample_table_columns [OF h1 h2 h3 h4] obtain t
    where f1: "sample_information ?P ?D False = Inr (Some t)"
      and f2: "map fst (df_columns t) = ?nft
         @ [''ncells'', ''seq_id'', ''file'', ''library_id'', ''sample_id'', ''molecule_h5'', ''agg_id'']"
      and fa: "\<forall>i<length ?nft. map_of (df_columns t) (?nft ! i)
             = Some (map (\<lambda>f. Str (split_str CHR ''_'' (sample_name_of f) ! i)) (glob_sample ?D))"
      and f3: "map_of (df_columns t) ''ncells''
         = Some (map (\<lambda>f. Str (split_str CHR ''.'' (basename f) ! 1)) (glob_sample ?D))"
      and f4: "map_of (df_columns t) ''seq_id''
         = Some (map (\<lambda>f. Str (split_str CHR ''.'' (basename f) ! 2)) (glob_sample ?D))"
      and f5: "map_of (df_columns t) ''file'' = Some (map Str (glob_sample ?D))"
      and f6: "df_index t = map sample_name_of (glob_sample ?D)"
      and f7: "map_of (df_columns t) ''library_id'' = Some (map Str (df_index t))"
      and f8: "map_of (df_columns t) ''molecule_h5''
         = Some (map (\<lambda>x. Str (x @ ''-count/outs/molecule_info.h5'')) (df_index t))"
      and f9: "PARAMS_sample_fields ?P = None \<longrightarrow>
           map_of (df_columns t) ''sample_id'' = Some (map Str (df_index t))"
    by (elim exE conjE)
  note g2 = f2 [unfolded e0] and g3 = f3 [unfolded e1] and g4 = f4 [unfolded e2]
    and g5 = f5 [unfolded e3] and g6 = f6 [unfolded e4]
  note g7 = f7 [unfolded g6 e5] and g8 = f8 [unfolded g6 e6]
  note g9 = f9 [rule_format, OF none, unfolded g6 e5]
  note ga = fa [rule_format, OF n0, unfolded t0 e7]
  note gb = fa [rule_format, OF n1, unfolded t1 e8]
  have "\<exists>t. sample_information ?P ?D False = Inr (Some t)
        \<and> map fst (df_columns t)
            = [''donor'', ''condition'', ''ncells'', ''seq_id'', ''file'', ''library_id'', ''sample_id'',
               ''molecule_h5'', ''agg_id'']
        \<and> map_of (df_columns t) ''donor'' = Some [Str ''donor1'', Str ''donor2'']
        \<and> map_of (df_columns t) ''condition'' = Some [Str ''stim'', Str ''ctrl'']
        \<and> map_of (df_columns t) ''ncells'' = Some [Str ''2000'', Str ''3000'']
        \<and> map_of (df_columns t) ''seq_id'' = Some [Str ''1'', Str ''2'']
        \<and> map_of (df_columns t) ''file''
            = Some [Str ''data.dir/donor1_stim.2000.1.sample'', Str ''data.dir/donor2_ctrl.3000.2.sample'']
        \<and> df_index t = [''donor1_stim'', ''donor2_ctrl'']
        \<and> map_of (df_columns t) ''library_id'' = Some [Str ''donor1_stim'', Str ''donor2_ctrl'']
        \<and> map_of (df_columns t) ''molecule_h5''
            = Some [Str ''donor1_stim-count/outs/molecule_info.h5'',
                    Str ''donor2_ctrl-count/outs/molecule_info.h5'']
        \<and> map_of (df_columns t) ''sample_id'' = Some [Str ''donor1_stim'', Str ''donor2_ctrl'']"
    by (rule exI [of _ t]) (intro conjI; fact f1 g2 ga gb g3 g4 g5 g6 g7 g8 g9)
  with h1 h2 h3 h4 show ?thesis by (intro conjI)
qed

text \<open>
  The table for the manifest \<^verbatim>\<open>donor1_stim.2000.1.sample\<close> with the titles
  \<^verbatim>\<open>donor,condition\<close>: the batch is in the column \<^verbatim>\<open>seq_id\<close> and the path in the
  column \<^verbatim>\<open>file\<close>; no column is called \<^verbatim>\<open>batch\<close>.
\<close>

theorem sample_table_columns_counterexample:
  "sample_information \<lparr>PARAMS_name_field_titles = ''donor,condition'', PARAMS_sample_fields = None\<rparr>
     [(''donor1_stim.2000.1.sample'', ''/data/runA\<newline>/data/runB\<newline>'')] False
     = Inr (Some \<lparr>df_index = [''donor1_stim''],
          df_columns =
            [(''donor'', [Str ''donor1'']), (''condition'', [Str ''stim'']),
             (''ncells'', [Str ''2000'']), (''seq_id'', [Str ''1'']),
             (''file'', [Str ''data.dir/donor1_stim.2000.1.sample'']),
             (''library_id'', [Str ''donor1_stim'']),
             (''sample_id'', [Str ''donor1_stim'']),
             (''molecule_h5'', [Str ''donor1_stim-count/outs/molecule_info.h5'']),
             (''agg_id'', [Str ''1''])]\<rparr>)
   \<and> ''batch'' \<notin> set (df_column_names \<lparr>df_index = [''donor1_stim''],
          df_columns =
            [(''donor'', [Str ''donor1'']), (''condition'', [Str ''stim'']),
             (''ncells'', [Str ''2000'']), (''seq_id'', [Str ''1'']),
             (''file'', [Str ''data.dir/donor1_stim.2000.1.sample'']),
             (''library_id'', [Str ''donor1_stim'']),
             (''sample_id'', [Str ''donor1_stim'']),
             (''molecule_h5'', [Str ''donor1_stim-count/outs/molecule_info.h5'']),
             (''agg_id'', [Str ''1''])]\<rparr>)"
  by code_simp

subsection \<open>What the result depends on\<close>

text \<open>
  C6, as amended. The result of \<^verbatim>\<open>sample_information\<close> is determined by the
  configuration and the list of manifest paths in the order the glob returns them: two
  directories whose manifests are discovered in the same order give the same result,
  row order and \<^verbatim>\<open>agg_id\<close> included.  When only the set of discovered paths is the same,
  the check-only pass succeeds on both directories or on neither.
\<close>

theorem discovery_order_determines_table:
  "(glob_sample d1 = glob_sample d2 \<longrightarrow>
      sample_information PARAMS d1 check_only = sample_information PARAMS d2 check_only)
   \<and> (set (glob_sample d1) = set (glob_sample d2) \<longrightarrow>
        (sample_information PARAMS d1 True = Inr None) = (sample_information PARAMS d2 True = Inr None))"
proof (intro conjI impI)
  assume "glob_sample d1 = glob_sample d2"
  then show "sample_information PARAMS d1 check_only = sample_information PARAMS d2 check_only"
    by (simp add: sample_information_def)
next
  assume s: "set (glob_sample d1) = set (glob_sample d2)"
  then have "(glob_sample d1 \<noteq> []) = (glob_sample d2 \<noteq> [])"
    by (metis set_empty)
  with s show "(sample_information PARAMS d1 True = Inr None) = (sample_information PARAMS d2 True = Inr None)"
    by (simp only: sample_information_check_iff)
qed

theorem discovery_order_determines_table_witness:
  "glob_sample [(''a.1.1.sample'', ''/x''), (''notes.txt'', ''''), (''b.1.1.sample'', ''/y'')]
     = glob_sample [(''a.1.1.sample'', ''/x''), (''b.1.1.sample'', ''/y''), (''.b.1.1.sample'', '''')]
   \<and> sample_information \<lparr>PARAMS_name_field_titles = ''donor'', PARAMS_sample_fields = None\<rparr>
         [(''a.1.1.sample'', ''/x''), (''notes.txt'', ''''), (''b.1.1.sample'', ''/y'')] False
     = sample_information \<lparr>PARAMS_name_field_titles = ''donor'', PARAMS_sample_fields = None\<rparr>
         [(''a.1.1.sample'', ''/x''), (''b.1.1.sample'', ''/y''), (''.b.1.1.sample'', '''')] False
   \<and> set (glob_sample [(''a.1.1.sample'', ''/x''), (''b.1.1.sample'', ''/y'')])
     = set (glob_sample [(''b.1.1.sample'', ''/y''), (''a.1.1.sample'', ''/x'')])
   \<and> (sample_information \<lparr>PARAMS_name_field_titles = ''donor'', PARAMS_sample_fields = None\<rparr>
         [(''a.1.1.sample'', ''/x''), (''b.1.1.sample'', ''/y'')] True = Inr None)
     = (sample_information \<lparr>PARAMS_name_field_titles = ''donor'', PARAMS_sample_fields = None\<rparr>
         [(''b.1.1.sample'', ''/y''), (''a.1.1.sample'', ''/x'')] True = Inr None)"
proof -
  let ?P = "\<lparr>PARAMS_name_field_titles = ''donor'', PARAMS_sample_fields = None\<rparr>"
  have g: "glob_sample [(''a.1.1.sample'', ''/x''), (''notes.txt'', ''''), (''b.1.1.sample'', ''/y'')]
     = glob_sample [(''a.1.1.sample'', ''/x''), (''b.1.1.sample'', ''/y''), (''.b.1.1.sample'', '''')]"
    by code_simp
  have s: "set (glob_sample [(''a.1.1.sample'', ''/x''), (''b.1.1.sample'', ''/y'')])
     = set (glob_sample [(''b.1.1.sample'', ''/y''), (''a.1.1.sample'', ''/x'')])"
    by code_simp
  have c1: "sample_information ?P
         [(''a.1.1.sample'', ''/x''), (''notes.txt'', ''''), (''b.1.1.sample'', ''/y'')] False
     = sample_information ?P
         [(''a.1.1.sample'', ''/x''), (''b.1.1.sample'', ''/y''), (''.b.1.1.sample'', '''')] False"
    using discovery_order_determines_table [where PARAMS = ?P and check_only = False
        and ?d1.0 = "[(''a.1.1.sample'', ''/x''), (''notes.txt'', ''''), (''b.1.1.sample'', ''/y'')]"
        and ?d2.0 = "[(''a.1.1.sample'', ''/x''), (''b.1.1.sample'', ''/y''), (''.b.1.1.sample'', '''')]"] g
    by blast
  have c2: "(sample_information ?P [(''a.1.1.sample'', ''/x''), (''b.1.1.sample'', ''/y'')] True = Inr None)
     = (sample_information ?P [(''b.1.1.sample'', ''/y''), (''a.1.1.sample'', ''/x'')] True = Inr None)"
    using discovery_order_determines_table [where PARAMS = ?P
        and ?d1.0 = "[(''a.1.1.sample'', ''/x''), (''b.1.1.sample'', ''/y'')]"
        and ?d2.0 = "[(''b.1.1.sample'', ''/y''), (''a.1.1.sample'', ''/x'')]"] s
    by blast
  show ?thesis using g c1 s c2 by (intro conjI)
qed

text \<open>
  Two directories with the same two manifests, names and contents, listed in opposite
  orders: the sample \<^verbatim>\<open>a\<close> gets \<^verbatim>\<open>agg_id\<close> 1 in one table and 2 in the other.
\<close>

theorem discovery_order_counterexample:
  "set [(''a.1.1.sample'', ''/x''), (''b.1.1.sample'', ''/y'')]
     = set [(''b.1.1.sample'', ''/y''), (''a.1.1.sample'', ''/x'')]
   \<and> sample_information \<lparr>PARAMS_name_field_titles = ''donor'', PARAMS_sample_fields = None\<rparr>
         [(''a.1.1.sample'', ''/x''), (''b.1.1.sample'', ''/y'')] False
       = Inr (Some \<lparr>df_index = [''a'', ''b''],
            df_columns =
              [(''donor'', [Str ''a'', Str ''b'']),
               (''ncells'', [Str ''1'', Str ''1'']),
               (''seq_id'', [Str ''1'', Str ''1'']),
               (''file'', [Str ''data.dir/a.1.1.sample'', Str ''data.dir/b.1.1.sample'']),
               (''library_id'', [Str ''a'', Str ''b'']),
               (''sample_id'', [Str ''a'', Str ''b'']),
               (''molecule_h5'', [Str ''a-count/outs/molecule_info.h5'', Str ''b-count/outs/molecule_info.h5'']),
               (''agg_id'', [Str ''1'', Str ''2''])]\<rparr>)
   \<and> sample_information \<lparr>PARAMS_name_field_titles = ''donor'', PARAMS_sample_fields = None\<rparr>
         [(''b.1.1.sample'', ''/y''), (''a.1.1.sample'', ''/x'')] False
       = Inr (Some \<lparr>df_index = [''b'', ''a''],
            df_columns =
              [(''donor'', [Str ''b'', Str ''a'']),
               (''ncells'', [Str ''1'', Str ''1'']),
               (''seq_id'', [Str ''1'', Str ''1'']),
               (''file'', [Str ''data.dir/b.1.1.sample'', Str ''data.dir/a.1.1.sample'']),
               (''library_id'', [Str ''b'', Str ''a'']),
               (''sample_id'', [Str ''b'', Str ''a'']),
               (''molecule_h5'', [Str ''b-count/outs/molecule_info.h5'', Str ''a-count/outs/molecule_info.h5'']),
               (''agg_id'', [Str ''1'', Str ''2''])]\<rparr>)
   \<and> sample_information \<lparr>PARAMS_name_field_titles = ''donor'', PARAMS_sample_fields = None\<rparr>
         [(''a.1.1.sample'', ''/x''), (''b.1.1.sample'', ''/y'')] False
       \<noteq> sample_information \<lparr>PARAMS_name_field_titles = ''donor'', PARAMS_sample_fields = None\<rparr>
         [(''b.1.1.sample'', ''/y''), (''a.1.1.sample'', ''/x'')] False"
  by code_simp

text \<open>
  C10, as amended. \<^verbatim>\<open>sample_information\<close> never reads a manifest: two directories that
  list the same names in the same order give the same result, error or table, whatever
  the contents of their files.
\<close>

theorem manifest_bodies_not_read:
  "map fst d1 = map fst d2 \<Longrightarrow>
   sample_information PARAMS d1 check_only = sample_information PARAMS d2 check_only"
  by (simp add: sample_information_def glob_sample_def)

theorem manifest_bodies_not_read_witness:
  "map fst [(''x.1.1.sample'', ''/r1''), (''y.2.1.sample'', ''/r2'')]
     = map fst [(''x.1.1.sample'', ''''), (''y.2.1.sample'', ''\<newline>  \<newline>'')]
   \<and> sample_information \<lparr>PARAMS_name_field_titles = ''donor'', PARAMS_sample_fields = None\<rparr>
         [(''x.1.1.sample'', ''/r1''), (''y.2.1.sample'', ''/r2'')] False
     = sample_information \<lparr>PARAMS_name_field_titles = ''donor'', PARAMS_sample_fields = None\<rparr>
         [(''x.1.1.sample'', ''''), (''y.2.1.sample'', ''\<newline>  \<newline>'')] False"
proof -
  have h: "map fst [(''x.1.1.sample'', ''/r1''), (''y.2.1.sample'', ''/r2'')]
     = map fst [(''x.1.1.sample'', ''''), (''y.2.1.sample'', ''\<newline>  \<newline>'')]"
    by simp
  from manifest_bodies_not_read [OF h] h show ?thesis by (intro conjI)
qed

text \<open>
  Directories with the same set of manifest names and different contents, listed in
  different orders: one pair raises different errors, the other returns different tables.
\<close>

theorem manifest_bodies_counterexample:
  "set (map fst [(''bad.sample'', ''/data/runA''), (''sample_id.1.1.sample'', ''/data/runB'')])
     = set (map fst [(''sample_id.1.1.sample'', ''''), (''bad.sample'', ''\<newline>'')])
   \<and> sample_information \<lparr>PARAMS_name_field_titles = ''donor'', PARAMS_sample_fields = None\<rparr>
         [(''bad.sample'', ''/data/runA''), (''sample_id.1.1.sample'', ''/data/runB'')] True
       = Inl (MalformedManifestNameError ''bad.sample'' ''sample_name_fields.ncells.seq_batch.sample'')
   \<and> sample_information \<lparr>PARAMS_name_field_titles = ''donor'', PARAMS_sample_fields = None\<rparr>
         [(''sample_id.1.1.sample'', ''''), (''bad.sample'', ''\<newline>'')] True
       = Inl ReservedNameError
   \<and> set (map fst [(''x.1.1.sample'', ''/r1''), (''y.2.1.sample'', ''/r2'')])
     = set (map fst [(''y.2.1.sample'', ''''), (''x.1.1.sample'', ''\<newline>'')])
   \<and> sample_information \<lparr>PARAMS_name_field_titles = ''donor'', PARAMS_sample_fields = None\<rparr>
         [(''x.1.1.sample'', ''/r1''), (''y.2.1.sample'', ''/r2'')] False
       \<noteq> sample_information \<lparr>PARAMS_name_field_titles = ''donor'', PARAMS_sample_fields = None\<rparr>
         [(''y.2.1.sample'', ''''), (''x.1.1.sample'', ''\<newline>'')] False"
  by code_simp

end
